theory Spec2Isabelle
  imports Complex_Main
begin

section \<open>Data model\<close>

text \<open>
  The embedding follows \<^verbatim>\<open>src/analysis/consensus_engine.py\<close> and
  \<^verbatim>\<open>src/risk/risk_manager.py\<close>.  Python \<^verbatim>\<open>float\<close> values are read as real
  numbers (no rounding, no infinities, no NaN); Python \<^verbatim>\<open>int\<close> values are
  \<open>int\<close> or \<open>nat\<close> (counts).  Every \<^verbatim>\<open>raise\<close> is a value of type \<open>error\<close>
  on the left of a sum.  A call of \<^verbatim>\<open>datetime.now()\<close> is a reading of the clock, passed
  to the function as the argument \<open>now\<close>.

  Several dataclasses share field names (\<^verbatim>\<open>symbol\<close>, \<^verbatim>\<open>stop_loss\<close>, \<^verbatim>\<open>timestamp\<close>), so
  each record prefixes its fields: \<open>a_\<close> for \<^verbatim>\<open>AIAnalysis\<close>, \<open>t_\<close> for
  \<^verbatim>\<open>TechnicalSignal\<close>, \<open>sd_\<close> for \<^verbatim>\<open>SentimentData\<close>, \<open>r_\<close> for
  \<^verbatim>\<open>TradeRecommendation\<close>, \<open>p_\<close> for \<^verbatim>\<open>Position\<close> and \<open>m_\<close> for
  \<^verbatim>\<open>RiskMetrics\<close>.  The attributes of \<^verbatim>\<open>RiskManager\<close> keep their names.
\<close>

datatype error = ZeroDivisionError | NameError | ValueError

type_synonym datetime = nat

record AIAnalysis =
  a_model :: string
  a_symbol :: string
  a_recommendation :: string
  a_confidence :: real
  a_target_price :: real
  a_stop_loss :: real
  a_take_profit :: real
  a_reasoning :: string
  a_risk_assessment :: string
  a_timeframe :: string
  a_timestamp :: datetime

record TechnicalSignal =
  t_symbol :: string
  t_timeframe :: string
  t_signal_type :: string
  t_strength :: real
  t_indicators :: "(string \<times> real) list"
  t_reasoning :: string
  t_timestamp :: datetime

record SentimentData =
  sd_source :: string
  sd_symbol :: string
  sd_sentiment_score :: real
  sd_volume :: int
  sd_key_topics :: "string list"
  sd_timestamp :: datetime
  sd_raw_data :: "(string \<times> string) list option"

record TradeRecommendation =
  r_symbol :: string
  r_action :: string
  r_confidence :: real
  r_entry_price :: real
  r_target_price :: real
  r_stop_loss :: real
  r_position_size_percent :: real
  r_expected_return :: real
  r_risk_reward_ratio :: real
  r_consensus_reasoning :: string
  r_risk_factors :: "string list"
  r_timestamp :: datetime

text \<open>
  A Python \<^verbatim>\<open>dict\<close> with string keys that the code only reads is an association list
  looked up with \<open>map_of\<close>; \<^verbatim>\<open>d.get(k, v)\<close> is \<open>dict_get\<close>.
\<close>

type_synonym 'v dict = "(string \<times> 'v) list"

definition dict_get :: "'v dict \<Rightarrow> string \<Rightarrow> 'v \<Rightarrow> 'v" where
  "dict_get d k dflt = (case map_of d k of None \<Rightarrow> dflt | Some v \<Rightarrow> v)"

section \<open>Consensus engine\<close>

definition min_confidence_threshold :: real where
  "min_confidence_threshold = 0.7"

definition min_agreement_score :: real where
  "min_agreement_score = 0.6"

text \<open>\<^verbatim>\<open>rec_map.get(recommendation, 0)\<close>: the five calls of the scale, 0 for any other string.\<close>

definition rec_map :: "string \<Rightarrow> int" where
  "rec_map r =
     (if r = ''STRONG_BUY'' then 2
      else if r = ''BUY'' then 1
      else if r = ''NEUTRAL'' then 0
      else if r = ''SELL'' then - 1
      else if r = ''STRONG_SELL'' then - 2
      else 0)"

definition calculate_agreement_score :: "AIAnalysis \<Rightarrow> AIAnalysis \<Rightarrow> real" where
  "calculate_agreement_score gpt4 claude =
     (let gpt4_score = rec_map (a_recommendation gpt4);
          claude_score = rec_map (a_recommendation claude);
          rec_agreement = 1 - real_of_int \<bar>gpt4_score - claude_score\<bar> / 4;
          conf_diff = \<bar>a_confidence gpt4 - a_confidence claude\<bar>;
          conf_agreement = 1 - conf_diff;
          price_component =
            (if a_target_price gpt4 > 0 \<and> a_target_price claude > 0
             then (let price_diff = \<bar>a_target_price gpt4 - a_target_price claude\<bar> / a_target_price gpt4;
                       price_agreement = max 0 (1 - price_diff / 0.05)
                   in price_agreement * 0.2)
             else 0);
          sl_component =
            (if a_stop_loss gpt4 > 0 \<and> a_stop_loss claude > 0
             then (let sl_diff = \<bar>a_stop_loss gpt4 - a_stop_loss claude\<bar> / a_stop_loss gpt4;
                       sl_agreement = max 0 (1 - sl_diff / 0.05)
                   in sl_agreement * 0.2)
             else 0)
      in sum_list [rec_agreement * 0.4, conf_agreement * 0.2, price_component, sl_component])"

definition count_signals :: "string \<Rightarrow> TechnicalSignal list \<Rightarrow> nat" where
  "count_signals ty signals = length (filter (\<lambda>s. t_signal_type s = ty) signals)"

definition mean :: "real list \<Rightarrow> real" where
  "mean xs = sum_list xs / real (length xs)"

definition validate_technical_signals :: "TechnicalSignal list \<Rightarrow> real" where
  "validate_technical_signals signals =
     (if signals = [] then 0.5
      else
        (let buy_count = count_signals ''BUY'' signals;
             sell_count = count_signals ''SELL'' signals;
             total_signals = length signals;
             validation_score =
               (if buy_count > sell_count then real buy_count / real total_signals
                else if sell_count > buy_count then real sell_count / real total_signals
                else 0.5);
             avg_strength = mean (map t_strength signals)
         in validation_score * avg_strength))"

definition validate_sentiment :: "SentimentData dict \<Rightarrow> real" where
  "validate_sentiment sentiment_data =
     (if sentiment_data = [] then 0.5
      else
        (case map_of sentiment_data ''aggregate'' of
           None \<Rightarrow> 0.5
         | Some aggregate \<Rightarrow>
             (let sentiment_strength = \<bar>sd_sentiment_score aggregate\<bar>;
                  volume_factor = min (real_of_int (sd_volume aggregate) / 100) 1
              in sentiment_strength * 0.7 + volume_factor * 0.3)))"

definition calculate_overall_confidence ::
  "AIAnalysis \<Rightarrow> AIAnalysis \<Rightarrow> real \<Rightarrow> real \<Rightarrow> real \<Rightarrow> real" where
  "calculate_overall_confidence gpt4 claude agreement_score technical_validation sentiment_validation =
     sum_list
       [a_confidence gpt4 * 0.25,
        a_confidence claude * 0.25,
        agreement_score * 0.25,
        technical_validation * 0.15,
        sentiment_validation * 0.10]"

definition determine_trade_action ::
  "AIAnalysis \<Rightarrow> AIAnalysis \<Rightarrow> TechnicalSignal list \<Rightarrow> real \<Rightarrow> string" where
  "determine_trade_action gpt4 claude technical_signals confidence =
     (if confidence < min_confidence_threshold then ''NO_TRADE''
      else
        (let gpt4_score = rec_map (a_recommendation gpt4);
             claude_score = rec_map (a_recommendation claude);
             avg_ai_score = real_of_int (gpt4_score + claude_score) / 2;
             tech_buy = count_signals ''BUY'' technical_signals;
             tech_sell = count_signals ''SELL'' technical_signals;
             tech_score = real_of_int (int tech_buy - int tech_sell)
                            / real (max (length technical_signals) 1);
             combined_score = avg_ai_score * 0.7 + tech_score * 0.3
         in if combined_score \<ge> 0.5 then ''LONG''
            else if combined_score \<le> - 0.5 then ''SHORT''
            else ''NO_TRADE''))"

record TradeParams =
  tp_target_price :: real
  tp_stop_loss :: real
  tp_position_size :: real
  tp_expected_return :: real
  tp_risk_reward_ratio :: real

text \<open>
  \<^verbatim>\<open>_calculate_trade_parameters\<close> returns a dict with five fixed keys, here the record
  \<open>TradeParams\<close>.  Its only division that can fail is \<^verbatim>\<open>reward / current_price\<close>.
\<close>

definition calculate_trade_parameters ::
  "AIAnalysis \<Rightarrow> AIAnalysis \<Rightarrow> real \<Rightarrow> string \<Rightarrow> error + TradeParams" where
  "calculate_trade_parameters gpt4 claude current_price action =
     (let target_avg = (a_target_price gpt4 + a_target_price claude) / 2;
          stop_avg = (a_stop_loss gpt4 + a_stop_loss claude) / 2;
          target_price =
            (if action = ''LONG''
             then (if target_avg \<le> current_price then current_price * 2.0 else target_avg)
             else (if target_avg \<ge> current_price then current_price * 0.5 else target_avg));
          stop_loss =
            (if action = ''LONG''
             then (if stop_avg \<ge> current_price then current_price * 0.95 else stop_avg)
             else (if stop_avg \<le> current_price then current_price * 1.05 else stop_avg));
          risk = (if action = ''LONG'' then current_price - stop_loss else stop_loss - current_price);
          reward = (if action = ''LONG'' then target_price - current_price else current_price - target_price);
          risk_reward_ratio = (if risk > 0 then reward / risk else 0);
          avg_confidence = (a_confidence gpt4 + a_confidence claude) / 2;
          base_position_size = 0.1;
          position_size = base_position_size * avg_confidence
      in if current_price = 0 then Inl ZeroDivisionError
         else Inr \<lparr>tp_target_price = target_price,
                   tp_stop_loss = stop_loss,
                   tp_position_size = position_size,
                   tp_expected_return = (reward / current_price) * 100,
                   tp_risk_reward_ratio = risk_reward_ratio\<rparr>)"

text \<open>
  \<^verbatim>\<open>str(n)\<close> for a count \<open>n\<close>, as the f-strings of
  \<^verbatim>\<open>_summarize_technical_signals\<close> print it: the decimal digits, most significant first.
\<close>

definition digit_char :: "nat \<Rightarrow> char" where
  "digit_char d = char_of (48 + d)"

function str_nat :: "nat \<Rightarrow> string" where
  "str_nat n = (if n < 10 then [digit_char n] else str_nat (n div 10) @ [digit_char (n mod 10)])"
  by pat_completeness auto
termination
  by (relation "measure id") auto

definition summarize_technical_signals :: "TechnicalSignal list \<Rightarrow> string" where
  "summarize_technical_signals signals =
     (if signals = [] then ''No technical signals available''
      else
        (let buy_count = count_signals ''BUY'' signals;
             sell_count = count_signals ''SELL'' signals
         in if buy_count > sell_count then ''Bullish ('' @ str_nat buy_count @ '' buy signals)''
            else if sell_count > buy_count then ''Bearish ('' @ str_nat sell_count @ '' sell signals)''
            else ''Mixed signals''))"

text \<open>\<^verbatim>\<open>sep.join(parts)\<close>.\<close>

fun join :: "string \<Rightarrow> string list \<Rightarrow> string" where
  "join sep [] = []"
| "join sep [x] = x"
| "join sep (x # y # ys) = x @ sep @ join sep (y # ys)"

definition generate_consensus_reasoning ::
  "AIAnalysis \<Rightarrow> AIAnalysis \<Rightarrow> TechnicalSignal list \<Rightarrow> SentimentData dict \<Rightarrow> real \<Rightarrow> string" where
  "generate_consensus_reasoning gpt4 claude technical_signals sentiment_data agreement_score =
     (let part_agreement =
            (if agreement_score > 0.8 then ''Strong agreement between AI models''
             else if agreement_score > 0.6 then ''Moderate agreement between AI models''
             else ''Limited agreement between AI models'');
          tech_summary = summarize_technical_signals technical_signals;
          part_technical = ''Technical analysis: '' @ tech_summary;
          parts_sentiment =
            (case map_of sentiment_data ''aggregate'' of
               None \<Rightarrow> []
             | Some sentiment \<Rightarrow>
                 (if sd_sentiment_score sentiment > 0.3 then [''Positive market sentiment'']
                  else if sd_sentiment_score sentiment < - 0.3 then [''Negative market sentiment'']
                  else [''Neutral market sentiment'']));
          part_gpt4 = ''GPT-4: '' @ take 100 (a_reasoning gpt4) @ ''...'';
          part_claude = ''Claude: '' @ take 100 (a_reasoning claude) @ ''...''
      in join '' | '' ([part_agreement, part_technical] @ parts_sentiment @ [part_gpt4, part_claude]))"

definition identify_risk_factors ::
  "AIAnalysis \<Rightarrow> AIAnalysis \<Rightarrow> real dict \<Rightarrow> SentimentData dict \<Rightarrow> string list" where
  "identify_risk_factors gpt4 claude market_data sentiment_data =
     (if \<bar>rec_map (a_recommendation gpt4) - rec_map (a_recommendation claude)\<bar> > 1
      then [''Significant disagreement between AI models''] else [])
     @ (if a_confidence gpt4 < 0.6 \<or> a_confidence claude < 0.6
        then [''Low confidence from one or more AI models''] else [])
     @ (if dict_get market_data ''funding_rate'' 0 > 0.001
        then [''High funding rate may indicate crowded trade''] else [])
     @ (if dict_get market_data ''volume_24h'' 0 < 1000000
        then [''Low trading volume may impact liquidity''] else [])
     @ (case map_of sentiment_data ''aggregate'' of
          None \<Rightarrow> []
        | Some aggregate \<Rightarrow>
            (if \<bar>sd_sentiment_score aggregate\<bar> < 0.1 then [''Unclear market sentiment''] else []))"

text \<open>
  \<^verbatim>\<open>generate_consensus\<close>.  \<open>None\<close> is the abstention (\<^verbatim>\<open>return None\<close>); the
  recommendation's timestamp is the clock reading \<open>now\<close>.
\<close>

definition generate_consensus ::
  "AIAnalysis \<Rightarrow> AIAnalysis \<Rightarrow> TechnicalSignal list \<Rightarrow> SentimentData dict \<Rightarrow> real dict \<Rightarrow> real
     \<Rightarrow> datetime \<Rightarrow> error + TradeRecommendation option" where
  "generate_consensus gpt4_analysis claude_analysis technical_signals sentiment_data market_data
       current_price now =
     (let agreement_score = calculate_agreement_score gpt4_analysis claude_analysis;
          technical_validation = validate_technical_signals technical_signals;
          sentiment_validation = validate_sentiment sentiment_data;
          overall_confidence =
            calculate_overall_confidence gpt4_analysis claude_analysis agreement_score
              technical_validation sentiment_validation;
          trade_action =
            determine_trade_action gpt4_analysis claude_analysis technical_signals overall_confidence
      in if trade_action = ''NO_TRADE'' then Inr None
         else
           (case calculate_trade_parameters gpt4_analysis claude_analysis current_price trade_action of
              Inl e \<Rightarrow> Inl e
            | Inr trade_params \<Rightarrow>
                (let reasoning =
                       generate_consensus_reasoning gpt4_analysis claude_analysis technical_signals
                         sentiment_data agreement_score;
                     risk_factors =
                       identify_risk_factors gpt4_analysis claude_analysis market_data sentiment_data
                 in Inr (Some
                      \<lparr>r_symbol = a_symbol gpt4_analysis,
                       r_action = trade_action,
                       r_confidence = overall_confidence,
                       r_entry_price = current_price,
                       r_target_price = tp_target_price trade_params,
                       r_stop_loss = tp_stop_loss trade_params,
                       r_position_size_percent = tp_position_size trade_params,
                       r_expected_return = tp_expected_return trade_params,
                       r_risk_reward_ratio = tp_risk_reward_ratio trade_params,
                       r_consensus_reasoning = reasoning,
                       r_risk_factors = risk_factors,
                       r_timestamp = now\<rparr>))))"

section \<open>Risk manager\<close>

record Position =
  p_symbol :: string
  p_side :: string
  p_entry_price :: real
  p_current_price :: real
  p_size :: real
  p_stop_loss :: real
  p_take_profit :: real
  p_entry_time :: datetime
  p_pnl :: real
  p_pnl_percentage :: real

record RiskMetrics =
  m_total_exposure :: real
  m_max_drawdown :: real
  m_current_drawdown :: real
  m_risk_per_trade :: real
  m_portfolio_var :: real
  m_sharpe_ratio :: real
  m_correlation_risk :: real
  m_timestamp :: datetime

text \<open>
  The attributes of a \<^verbatim>\<open>RiskManager\<close> object.  The positions of the list are distinct
  objects (\<^verbatim>\<open>add_position\<close> builds a fresh one each time), so mutating one in place is
  replacing that element of the list.
\<close>

record RiskManager =
  max_position_size :: real
  risk_per_trade :: real
  max_concurrent_positions :: int
  max_portfolio_risk :: real
  correlation_threshold :: real
  positions :: "Position list"
  historical_returns :: "real list"
  account_balance :: real

text \<open>
  \<^verbatim>\<open>RiskManager.__init__\<close>, from the three values it reads in \<^verbatim>\<open>settings\<close>.
\<close>

definition init :: "real \<Rightarrow> real \<Rightarrow> int \<Rightarrow> RiskManager" where
  "init settings_max_position_size settings_risk_per_trade settings_max_concurrent_positions =
     \<lparr>max_position_size = settings_max_position_size,
      risk_per_trade = settings_risk_per_trade,
      max_concurrent_positions = settings_max_concurrent_positions,
      max_portfolio_risk = 0.06,
      correlation_threshold = 0.7,
      positions = [],
      historical_returns = [],
      account_balance = 10000\<rparr>"

text \<open>
  The reason string of \<^verbatim>\<open>validate_trade\<close>.  Three of the messages format a number
  into the text; the constructor carries that number.
\<close>

datatype reason =
    Maximum_concurrent_positions_reached
  | Position_size_too_small
  | Portfolio_risk_too_high real
  | High_correlation_with_existing_positions real
  | Stop_loss_too_far real
  | Trade_validated

definition get_total_portfolio_value :: "RiskManager \<Rightarrow> real" where
  "get_total_portfolio_value s = 10000"

text \<open>
  \<^verbatim>\<open>_calculate_position_size\<close>.  The last division,
  \<^verbatim>\<open>(account_balance * self.risk_per_trade) / (max_loss / current_price)\<close>, raises when
  \<^verbatim>\<open>current_price\<close> is zero and when the quotient \<^verbatim>\<open>max_loss / current_price\<close> is zero.
\<close>

definition calculate_position_size ::
  "RiskManager \<Rightarrow> TradeRecommendation \<Rightarrow> real \<Rightarrow> real \<Rightarrow> error + real" where
  "calculate_position_size s recommendation current_price account_balance' =
     (let base_size = account_balance' * r_position_size_percent recommendation;
          win_probability = r_confidence recommendation;
          win_loss_ratio = r_risk_reward_ratio recommendation;
          kelly_fraction =
            (if win_loss_ratio > 0
             then max 0 (min ((win_probability * win_loss_ratio - (1 - win_probability)) / win_loss_ratio) 0.25)
             else 0);
          kelly_size = account_balance' * kelly_fraction;
          position_size = min base_size kelly_size;
          max_loss =
            (if r_action recommendation = ''LONG''
             then current_price - r_stop_loss recommendation
             else r_stop_loss recommendation - current_price)
      in if current_price = 0 then Inl ZeroDivisionError
         else if max_loss / current_price = 0 then Inl ZeroDivisionError
         else
           (let max_position_from_risk =
                  (account_balance' * risk_per_trade s) / (max_loss / current_price)
            in Inr (min position_size max_position_from_risk)))"

text \<open>
  The loop of \<^verbatim>\<open>_calculate_portfolio_risk\<close> over the open positions, with the running
  \<^verbatim>\<open>total_risk\<close> as accumulator.
\<close>

fun existing_positions_risk :: "RiskManager \<Rightarrow> Position list \<Rightarrow> real \<Rightarrow> error + real" where
  "existing_positions_risk s [] total_risk = Inr total_risk"
| "existing_positions_risk s (position # rest) total_risk =
     (if p_current_price position = 0 then Inl ZeroDivisionError
      else
        (let position_risk =
               (if p_side position = ''LONG''
                then (p_current_price position - p_stop_loss position) / p_current_price position
                else (p_stop_loss position - p_current_price position) / p_current_price position)
         in existing_positions_risk s rest
              (total_risk + position_risk * (p_size position / get_total_portfolio_value s))))"

definition calculate_portfolio_risk ::
  "RiskManager \<Rightarrow> real \<Rightarrow> TradeRecommendation \<Rightarrow> error + real" where
  "calculate_portfolio_risk s new_position_size recommendation =
     (case existing_positions_risk s (positions s) 0 of
        Inl e \<Rightarrow> Inl e
      | Inr total_risk \<Rightarrow>
          (if r_entry_price recommendation = 0 then Inl ZeroDivisionError
           else
             (let new_risk =
                    (if r_action recommendation = ''LONG''
                     then (r_entry_price recommendation - r_stop_loss recommendation)
                            / r_entry_price recommendation
                     else (r_stop_loss recommendation - r_entry_price recommendation)
                            / r_entry_price recommendation)
              in Inr (total_risk + new_risk * (new_position_size / get_total_portfolio_value s)))))"

definition check_correlation_risk :: "RiskManager \<Rightarrow> string \<Rightarrow> real" where
  "check_correlation_risk s symbol =
     (if positions s = [] then 0
      else
        (let correlation_scores =
               map (\<lambda>position.
                      if p_symbol position = symbol then 1.0
                      else if take 3 (p_symbol position) = take 3 symbol then 0.8
                      else 0.3)
                   (positions s)
         in case correlation_scores of [] \<Rightarrow> 0 | x # xs \<Rightarrow> fold max xs x))"

definition validate_trade ::
  "RiskManager \<Rightarrow> TradeRecommendation \<Rightarrow> real \<Rightarrow> real \<Rightarrow> error + (bool \<times> reason \<times> real)" where
  "validate_trade s recommendation current_price account_balance' =
     (if int (length (positions s)) \<ge> max_concurrent_positions s
      then Inr (False, Maximum_concurrent_positions_reached, 0)
      else
        (case calculate_position_size s recommendation current_price account_balance' of
           Inl e \<Rightarrow> Inl e
         | Inr computed_size \<Rightarrow>
             (let position_size =
                    (if computed_size > max_position_size s then max_position_size s else computed_size)
              in if position_size < 10 then Inr (False, Position_size_too_small, 0)
                 else
                   (case calculate_portfolio_risk s position_size recommendation of
                      Inl e \<Rightarrow> Inl e
                    | Inr portfolio_risk \<Rightarrow>
                        (if portfolio_risk > max_portfolio_risk s
                         then Inr (False, Portfolio_risk_too_high portfolio_risk, 0)
                         else
                           (let correlation_risk = check_correlation_risk s (r_symbol recommendation)
                            in if correlation_risk > correlation_threshold s
                               then Inr (False, High_correlation_with_existing_positions correlation_risk, 0)
                               else
                                 (let risk_percentage =
                                        (if r_action recommendation = ''LONG''
                                         then (current_price - r_stop_loss recommendation) / current_price
                                         else (r_stop_loss recommendation - current_price) / current_price)
                                  in if risk_percentage > 0.1
                                     then Inr (False, Stop_loss_too_far risk_percentage, 0)
                                     else Inr (True, Trade_validated, position_size))))))))"

definition add_position :: "RiskManager \<Rightarrow> TradeRecommendation \<Rightarrow> real \<Rightarrow> datetime \<Rightarrow> RiskManager" where
  "add_position s recommendation actual_size now =
     s\<lparr>positions := positions s @
         [\<lparr>p_symbol = r_symbol recommendation,
           p_side = r_action recommendation,
           p_entry_price = r_entry_price recommendation,
           p_current_price = r_entry_price recommendation,
           p_size = actual_size,
           p_stop_loss = r_stop_loss recommendation,
           p_take_profit = r_target_price recommendation,
           p_entry_time = now,
           p_pnl = 0,
           p_pnl_percentage = 0\<rparr>]\<rparr>"

text \<open>
  The body of the loop of \<^verbatim>\<open>update_positions\<close> for one position.  The new price is
  stored before the PnL is computed, so when the division by a zero entry price raises,
  the position keeps the new price and its old PnL.
\<close>

definition update_position :: "(string \<rightharpoonup> real) \<Rightarrow> Position \<Rightarrow> Position \<times> error option" where
  "update_position price_updates position =
     (case price_updates (p_symbol position) of
        None \<Rightarrow> (position, None)
      | Some price \<Rightarrow>
          (let position1 = position\<lparr>p_current_price := price\<rparr>
           in if p_entry_price position1 = 0 then (position1, Some ZeroDivisionError)
              else if p_side position1 = ''LONG''
              then (position1
                      \<lparr>p_pnl := (p_current_price position1 - p_entry_price position1) * p_size position1
                                  / p_entry_price position1,
                       p_pnl_percentage := (p_current_price position1 - p_entry_price position1)
                                  / p_entry_price position1\<rparr>, None)
              else (position1
                      \<lparr>p_pnl := (p_entry_price position1 - p_current_price position1) * p_size position1
                                  / p_entry_price position1,
                       p_pnl_percentage := (p_entry_price position1 - p_current_price position1)
                                  / p_entry_price position1\<rparr>, None)))"

text \<open>The loop: an exception leaves the positions after the failing one untouched.\<close>

fun update_loop :: "(string \<rightharpoonup> real) \<Rightarrow> Position list \<Rightarrow> Position list \<times> error option" where
  "update_loop price_updates [] = ([], None)"
| "update_loop price_updates (position # rest) =
     (case update_position price_updates position of
        (position', Some e) \<Rightarrow> (position' # rest, Some e)
      | (position', None) \<Rightarrow>
          (case update_loop price_updates rest of (rest', e) \<Rightarrow> (position' # rest', e)))"

text \<open>
  \<^verbatim>\<open>update_positions\<close> returns the manager as the call leaves it, and the exception if
  one was raised.
\<close>

definition update_positions :: "RiskManager \<Rightarrow> (string \<rightharpoonup> real) \<Rightarrow> RiskManager \<times> error option" where
  "update_positions s price_updates =
     (case update_loop price_updates (positions s) of
        (ps, e) \<Rightarrow> (s\<lparr>positions := ps\<rparr>, e))"

definition exit_trigger :: "Position \<Rightarrow> (Position \<times> string) list" where
  "exit_trigger position =
     (if p_side position = ''LONG''
      then (if p_current_price position \<le> p_stop_loss position then [(position, ''STOP_LOSS'')]
            else if p_current_price position \<ge> p_take_profit position then [(position, ''TAKE_PROFIT'')]
            else [])
      else (if p_current_price position \<ge> p_stop_loss position then [(position, ''STOP_LOSS'')]
            else if p_current_price position \<le> p_take_profit position then [(position, ''TAKE_PROFIT'')]
            else []))"

definition check_stop_loss_take_profit :: "RiskManager \<Rightarrow> (Position \<times> string) list" where
  "check_stop_loss_take_profit s = concat (map exit_trigger (positions s))"

text \<open>
  The body of the loop of \<^verbatim>\<open>apply_trailing_stop\<close>; \<open>trailing_stop_percentage\<close> is
  \<^verbatim>\<open>settings.trailing_stop_percentage\<close>.
\<close>

definition trail_position :: "real \<Rightarrow> Position \<Rightarrow> Position" where
  "trail_position trailing_stop_percentage position =
     (if p_pnl_percentage position > 0.05
      then (if p_side position = ''LONG''
            then (let new_stop = p_current_price position * (1 - trailing_stop_percentage)
                  in if new_stop > p_stop_loss position then position\<lparr>p_stop_loss := new_stop\<rparr>
                     else position)
            else (let new_stop = p_current_price position * (1 + trailing_stop_percentage)
                  in if new_stop < p_stop_loss position then position\<lparr>p_stop_loss := new_stop\<rparr>
                     else position))
      else position)"

definition apply_trailing_stop :: "RiskManager \<Rightarrow> real \<Rightarrow> RiskManager" where
  "apply_trailing_stop s trailing_stop_percentage =
     s\<lparr>positions := map (trail_position trailing_stop_percentage) (positions s)\<rparr>"

text \<open>
  \<^verbatim>\<open>close_position\<close>: \<^verbatim>\<open>list.remove\<close> deletes the first element equal to its argument
  (dataclass equality compares all fields) and raises \<^verbatim>\<open>ValueError\<close> when there is none.
\<close>

definition close_position :: "RiskManager \<Rightarrow> Position \<Rightarrow> error + RiskManager" where
  "close_position s position =
     (if position \<in> set (positions s)
      then Inr (s\<lparr>positions := remove1 position (positions s),
                  historical_returns := historical_returns s @ [p_pnl_percentage position]\<rparr>)
      else Inl ValueError)"

subsection \<open>Risk metrics\<close>

text \<open>
  The numpy operations of \<^verbatim>\<open>get_risk_metrics\<close> on real numbers: \<^verbatim>\<open>np.cumprod\<close>,
  \<^verbatim>\<open>np.maximum.accumulate\<close>, \<^verbatim>\<open>np.min\<close>, \<^verbatim>\<open>np.std\<close> (the population standard
  deviation) and \<^verbatim>\<open>np.percentile\<close> with its default linear interpolation between the two
  nearest ranks of the sorted sample.  numpy's array division does not raise on a zero
  divisor (it yields \<^verbatim>\<open>inf\<close> or \<^verbatim>\<open>nan\<close>); the drawdown below is the real quotient and is
  meant for a non-zero running maximum.
\<close>

fun cumprod_from :: "real \<Rightarrow> real list \<Rightarrow> real list" where
  "cumprod_from acc [] = []"
| "cumprod_from acc (x # xs) = (acc * x) # cumprod_from (acc * x) xs"

definition cumprod :: "real list \<Rightarrow> real list" where
  "cumprod xs = cumprod_from 1 xs"

fun maximum_accumulate_from :: "real \<Rightarrow> real list \<Rightarrow> real list" where
  "maximum_accumulate_from acc [] = []"
| "maximum_accumulate_from acc (x # xs) = max acc x # maximum_accumulate_from (max acc x) xs"

definition maximum_accumulate :: "real list \<Rightarrow> real list" where
  "maximum_accumulate xs = (case xs of [] \<Rightarrow> [] | x # rest \<Rightarrow> x # maximum_accumulate_from x rest)"

definition np_min :: "real list \<Rightarrow> real" where
  "np_min xs = (case xs of [] \<Rightarrow> 0 | x # rest \<Rightarrow> fold min rest x)"

definition np_std :: "real list \<Rightarrow> real" where
  "np_std xs = sqrt (mean (map (\<lambda>x. (x - mean xs)\<^sup>2) xs))"

definition percentile :: "real list \<Rightarrow> real \<Rightarrow> real" where
  "percentile a q =
     (let arr = sort a;
          n = length arr;
          virtual_index = real (n - 1) * (q / 100);
          previous_index = nat \<lfloor>virtual_index\<rfloor>;
          next_index = min (previous_index + 1) (n - 1);
          gamma = virtual_index - real previous_index
      in arr ! previous_index + (arr ! next_index - arr ! previous_index) * gamma)"

text \<open>
  The module \<^verbatim>\<open>risk_manager.py\<close> imports \<^verbatim>\<open>Dict\<close>, \<^verbatim>\<open>List\<close>, \<^verbatim>\<open>Optional\<close>,
  \<^verbatim>\<open>Tuple\<close>, \<^verbatim>\<open>datetime\<close>, \<^verbatim>\<open>timedelta\<close>, \<^verbatim>\<open>np\<close>, \<^verbatim>\<open>dataclass\<close>,
  \<^verbatim>\<open>logger\<close>, \<^verbatim>\<open>settings\<close> and \<^verbatim>\<open>TradeRecommendation\<close>, and defines three classes.
  The name \<^verbatim>\<open>defaultdict\<close> is bound neither there nor in the builtins, so evaluating it
  raises \<^verbatim>\<open>NameError\<close>.
\<close>

definition module_globals :: "string list" where
  "module_globals =
     [''Dict'', ''List'', ''Optional'', ''Tuple'', ''datetime'', ''timedelta'', ''np'', ''dataclass'',
      ''logger'', ''settings'', ''TradeRecommendation'', ''Position'', ''RiskMetrics'', ''RiskManager'']"

definition lookup_name :: "string \<Rightarrow> error + unit" where
  "lookup_name name = (if name \<in> set module_globals then Inr () else Inl NameError)"

text \<open>
  The counting loop of \<^verbatim>\<open>_calculate_portfolio_correlation\<close>: the dictionary
  \<^verbatim>\<open>same_base_pairs\<close> as an association list from base to count.
\<close>

fun count_base :: "string \<Rightarrow> (string \<times> nat) list \<Rightarrow> (string \<times> nat) list" where
  "count_base base [] = [(base, 1)]"
| "count_base base ((k, c) # rest) =
     (if k = base then (k, c + 1) # rest else (k, c) # count_base base rest)"

definition same_base_pairs :: "Position list \<Rightarrow> (string \<times> nat) list" where
  "same_base_pairs ps = fold (\<lambda>position counts. count_base (take 3 (p_symbol position)) counts) ps []"

definition max_concentration :: "Position list \<Rightarrow> nat" where
  "max_concentration ps =
     (case map snd (same_base_pairs ps) of [] \<Rightarrow> 1 | c # cs \<Rightarrow> fold max cs c)"

definition calculate_portfolio_correlation :: "RiskManager \<Rightarrow> error + real" where
  "calculate_portfolio_correlation s =
     (if length (positions s) < 2 then Inr 0
      else
        (case lookup_name ''defaultdict'' of
           Inl e \<Rightarrow> Inl e
         | Inr _ \<Rightarrow>
             Inr (real_of_int (int (max_concentration (positions s)) - 1)
                    / real (length (positions s)))))"

definition get_risk_metrics :: "RiskManager \<Rightarrow> datetime \<Rightarrow> error + RiskMetrics" where
  "get_risk_metrics s now =
     (let total_exposure = sum_list (map p_size (positions s));
          cumulative_returns = cumprod (map (\<lambda>r. 1 + r) (historical_returns s));
          running_max = maximum_accumulate cumulative_returns;
          drawdown = map2 (\<lambda>c m. (c - m) / m) cumulative_returns running_max;
          max_drawdown =
            (if historical_returns s \<noteq> [] then (if length drawdown > 0 then np_min drawdown else 0)
             else 0);
          current_drawdown =
            (if historical_returns s \<noteq> [] then (if length drawdown > 0 then last drawdown else 0)
             else 0);
          var_95 =
            (if length (historical_returns s) > 20 then percentile (historical_returns s) 5
             else - risk_per_trade s);
          sharpe_ratio =
            (if length (historical_returns s) > 1
             then mean (historical_returns s) / (np_std (historical_returns s) + 1 / 1000000) * sqrt 252
             else 0)
      in case calculate_portfolio_correlation s of
           Inl e \<Rightarrow> Inl e
         | Inr correlation_risk \<Rightarrow>
             Inr \<lparr>m_total_exposure = total_exposure,
                  m_max_drawdown = max_drawdown,
                  m_current_drawdown = current_drawdown,
                  m_risk_per_trade = risk_per_trade s,
                  m_portfolio_var = var_95,
                  m_sharpe_ratio = sharpe_ratio,
                  m_correlation_risk = correlation_risk,
                  m_timestamp = now\<rparr>)"

subsection \<open>Sequences of operations\<close>

text \<open>
  One call of a method of the manager.  \<open>step\<close> gives the manager as the call leaves it,
  whether it returned or raised; \<open>trace\<close> lists the managers before, between and after
  the calls of a sequence.
\<close>

datatype op =
    Validate_trade TradeRecommendation real real
  | Add_position TradeRecommendation real datetime
  | Update_positions "string \<rightharpoonup> real"
  | Check_stop_loss_take_profit
  | Apply_trailing_stop
  | Close_position Position

fun step :: "real \<Rightarrow> RiskManager \<Rightarrow> op \<Rightarrow> RiskManager" where
  "step tsp s (Validate_trade recommendation current_price balance) = s"
| "step tsp s (Add_position recommendation actual_size now) = add_position s recommendation actual_size now"
| "step tsp s (Update_positions price_updates) = fst (update_positions s price_updates)"
| "step tsp s Check_stop_loss_take_profit = s"
| "step tsp s Apply_trailing_stop = apply_trailing_stop s tsp"
| "step tsp s (Close_position position) =
     (case close_position s position of Inl e \<Rightarrow> s | Inr s' \<Rightarrow> s')"

fun run :: "real \<Rightarrow> RiskManager \<Rightarrow> op list \<Rightarrow> RiskManager" where
  "run tsp s [] = s"
| "run tsp s (x # xs) = run tsp (step tsp s x) xs"

fun trace :: "real \<Rightarrow> RiskManager \<Rightarrow> op list \<Rightarrow> RiskManager list" where
  "trace tsp s [] = [s]"
| "trace tsp s (x # xs) = s # trace tsp (step tsp s x) xs"

definition accepted :: "error + (bool \<times> reason \<times> real) \<Rightarrow> bool" where
  "accepted v = (case v of Inl e \<Rightarrow> False | Inr (ok, why, amount) \<Rightarrow> ok)"

text \<open>
  A sequence is \<open>guarded\<close> when every \<^verbatim>\<open>add_position\<close> comes right after a
  \<^verbatim>\<open>validate_trade\<close> of the same recommendation that accepted it.
\<close>

fun guarded :: "real \<Rightarrow> RiskManager \<Rightarrow> op list \<Rightarrow> bool" where
  "guarded tsp s [] = True"
| "guarded tsp s (Validate_trade r price balance # Add_position r' actual_size now # xs) =
     (r' = r \<and> accepted (validate_trade s r price balance)
      \<and> guarded tsp (add_position s r' actual_size now) xs)"
| "guarded tsp s (Add_position r actual_size now # xs) = False"
| "guarded tsp s (x # xs) = guarded tsp (step tsp s x) xs"

fun update_or_trail :: "op \<Rightarrow> bool" where
  "update_or_trail (Update_positions price_updates) = True"
| "update_or_trail Apply_trailing_stop = True"
| "update_or_trail x = False"

text \<open>The book holds no more positions than the configured limit.\<close>

definition within_cap :: "RiskManager \<Rightarrow> bool" where
  "within_cap s = (int (length (positions s)) \<le> max_concurrent_positions s)"

section \<open>Example inputs\<close>

definition ex_opinion :: "string \<Rightarrow> real \<Rightarrow> AIAnalysis" where
  "ex_opinion call conf =
     \<lparr>a_model = ''m'', a_symbol = ''BTCUSDT'', a_recommendation = call, a_confidence = conf,
      a_target_price = 120, a_stop_loss = 95, a_take_profit = 120, a_reasoning = ''momentum'',
      a_risk_assessment = ''low'', a_timeframe = ''4h'', a_timestamp = 0\<rparr>"

definition ex_signal :: "string \<Rightarrow> real \<Rightarrow> TechnicalSignal" where
  "ex_signal ty strength =
     \<lparr>t_symbol = ''BTCUSDT'', t_timeframe = ''1h'', t_signal_type = ty, t_strength = strength,
      t_indicators = [], t_reasoning = ''rsi'', t_timestamp = 0\<rparr>"

definition ex_signals :: "TechnicalSignal list" where
  "ex_signals = [ex_signal ''BUY'' 0.8, ex_signal ''BUY'' 0.6, ex_signal ''BUY'' 0.7]"

definition ex_sentiment :: "SentimentData dict" where
  "ex_sentiment =
     [(''aggregate'',
       \<lparr>sd_source = ''aggregate'', sd_symbol = ''BTCUSDT'', sd_sentiment_score = 0.4, sd_volume = 150,
        sd_key_topics = [], sd_timestamp = 0, sd_raw_data = None\<rparr>)]"

definition ex_market :: "real dict" where
  "ex_market = [(''funding_rate'', 0.0001), (''volume_24h'', 5000000)]"

definition ex_manager :: RiskManager where
  "ex_manager = init 1000 0.02 3"

definition ex_recommendation :: "real \<Rightarrow> real \<Rightarrow> real \<Rightarrow> TradeRecommendation" where
  "ex_recommendation confidence ratio stop =
     \<lparr>r_symbol = ''BTCUSDT'', r_action = ''LONG'', r_confidence = confidence, r_entry_price = 100,
      r_target_price = 130, r_stop_loss = stop, r_position_size_percent = 0.08,
      r_expected_return = 30, r_risk_reward_ratio = ratio, r_consensus_reasoning = ''agreement'',
      r_risk_factors = [], r_timestamp = 0\<rparr>"

definition ex_position :: "string \<Rightarrow> string \<Rightarrow> real \<Rightarrow> real \<Rightarrow> Position" where
  "ex_position symbol side price stop =
     \<lparr>p_symbol = symbol, p_side = side, p_entry_price = 100, p_current_price = price, p_size = 500,
      p_stop_loss = stop, p_take_profit = 130, p_entry_time = 0, p_pnl = (price - 100) * 5,
      p_pnl_percentage = (price - 100) / 100\<rparr>"

definition ex_full_manager :: RiskManager where
  "ex_full_manager =
     ex_manager\<lparr>positions :=
       [ex_position ''ETHUSDT'' ''LONG'' 100 97, ex_position ''SOLUSDT'' ''LONG'' 100 97,
        ex_position ''XRPUSDT'' ''LONG'' 100 97]\<rparr>"

definition ex_risky_manager :: RiskManager where
  "ex_risky_manager = ex_manager\<lparr>positions := [ex_position ''ETHUSDT'' ''LONG'' 100 0]\<rparr>"

definition ex_correlated_manager :: RiskManager where
  "ex_correlated_manager = ex_manager\<lparr>positions := [ex_position ''BTCUSDT'' ''LONG'' 100 97]\<rparr>"

definition ex_trailing_manager :: RiskManager where
  "ex_trailing_manager =
     ex_manager\<lparr>positions :=
       [ex_position ''ETHUSDT'' ''LONG'' 100 97, ex_position ''SOLUSDT'' ''SHORT'' 100 103]\<rparr>"

definition ex_earlier :: "op list" where
  "ex_earlier = [Update_positions [''ETHUSDT'' \<mapsto> 110, ''SOLUSDT'' \<mapsto> 90], Apply_trailing_stop]"

definition ex_later :: "op list" where
  "ex_later = [Update_positions [''ETHUSDT'' \<mapsto> 120, ''SOLUSDT'' \<mapsto> 94], Apply_trailing_stop]"

definition ex_guarded_ops :: "op list" where
  "ex_guarded_ops =
     [Validate_trade (ex_recommendation 0.8 2 95) 100 10000,
      Add_position (ex_recommendation 0.8 2 95) 800 7,
      Update_positions [''BTCUSDT'' \<mapsto> 101],
      Check_stop_loss_take_profit,
      Apply_trailing_stop,
      Validate_trade (ex_recommendation 0.8 2 95) 101 10000]"

definition ex_unguarded_ops :: "op list" where
  "ex_unguarded_ops =
     [Add_position (ex_recommendation 0.8 2 95) 800 7,
      Add_position (ex_recommendation 0.8 2 95) 800 8,
      Add_position (ex_recommendation 0.8 2 95) 800 9,
      Add_position (ex_recommendation 0.8 2 95) 800 10]"

definition ex_returns20 :: "real list" where
  "ex_returns20 =
     [0.02, - 0.04, 0.05, 0.01, - 0.01, 0.03, 0.00, 0.06, 0.02, 0.04,
      - 0.02, 0.07, 0.01, 0.03, 0.05, - 0.03, 0.02, 0.08, 0.04, 0.01]"

definition ex_manager20 :: RiskManager where
  "ex_manager20 = ex_manager\<lparr>historical_returns := ex_returns20\<rparr>"

definition ex_manager21 :: RiskManager where
  "ex_manager21 = ex_manager\<lparr>historical_returns := 0.09 # ex_returns20\<rparr>"

section \<open>Bounds of the consensus scores\<close>

lemma rec_map_range: "- 2 \<le> rec_map r \<and> rec_map r \<le> 2"
  by (simp add: rec_map_def)

lemma closeness_unit:
  fixes x y :: real
  assumes "0 < x"
  shows "0 \<le> max 0 (1 - (\<bar>x - y\<bar> / x) / 0.05) * 0.2 \<and> max 0 (1 - (\<bar>x - y\<bar> / x) / 0.05) * 0.2 \<le> 0.2"
proof -
  have "0 \<le> (\<bar>x - y\<bar> / x) / 0.05" using assms by (auto simp: zero_le_divide_iff)
  then have "1 - (\<bar>x - y\<bar> / x) / 0.05 \<le> 1" by linarith
  then have "max 0 (1 - (\<bar>x - y\<bar> / x) / 0.05) \<le> 1" by simp
  moreover have "0 \<le> max 0 (1 - (\<bar>x - y\<bar> / x) / 0.05)" by simp
  ultimately show ?thesis by simp
qed

lemma agreement_score_bounds:
  assumes "0 \<le> a_confidence gpt4" "a_confidence gpt4 \<le> 1"
    and "0 \<le> a_confidence claude" "a_confidence claude \<le> 1"
  shows "0 \<le> calculate_agreement_score gpt4 claude \<and> calculate_agreement_score gpt4 claude \<le> 1"
proof -
  let ?d = "real_of_int \<bar>rec_map (a_recommendation gpt4) - rec_map (a_recommendation claude)\<bar>"
  have "\<bar>rec_map (a_recommendation gpt4) - rec_map (a_recommendation claude)\<bar> \<le> 4"
    using rec_map_range [of "a_recommendation gpt4"] rec_map_range [of "a_recommendation claude"]
    by arith
  then have "?d \<le> real_of_int 4" by (rule iffD2 [OF of_int_le_iff])
  then have d: "0 \<le> ?d \<and> ?d \<le> 4" by simp
  let ?c = "\<bar>a_confidence gpt4 - a_confidence claude\<bar>"
  have c: "0 \<le> ?c \<and> ?c \<le> 1" using assms by (simp add: abs_le_iff)
  let ?p = "(if a_target_price gpt4 > 0 \<and> a_target_price claude > 0
             then max 0 (1 - (\<bar>a_target_price gpt4 - a_target_price claude\<bar> / a_target_price gpt4) / 0.05) * 0.2
             else 0)"
  let ?s = "(if a_stop_loss gpt4 > 0 \<and> a_stop_loss claude > 0
             then max 0 (1 - (\<bar>a_stop_loss gpt4 - a_stop_loss claude\<bar> / a_stop_loss gpt4) / 0.05) * 0.2
             else 0)"
  have p: "0 \<le> ?p \<and> ?p \<le> 0.2"
    using closeness_unit [of "a_target_price gpt4" "a_target_price claude"] by (simp del: max.bounded_iff)
  have s: "0 \<le> ?s \<and> ?s \<le> 0.2"
    using closeness_unit [of "a_stop_loss gpt4" "a_stop_loss claude"] by (simp del: max.bounded_iff)
  define D where "D = ?d"
  define C where "C = ?c"
  define P where "P = ?p"
  define S where "S = ?s"
  have eq: "calculate_agreement_score gpt4 claude = (1 - D / 4) * 0.4 + (1 - C) * 0.2 + P + S"
    by (simp add: calculate_agreement_score_def Let_def D_def C_def P_def S_def)
  have "0 \<le> D" "D \<le> 4" "0 \<le> C" "C \<le> 1" "0 \<le> P" "P \<le> 0.2" "0 \<le> S" "S \<le> 0.2"
    using d c p s unfolding D_def C_def P_def S_def by blast+
  then show ?thesis unfolding eq by argo
qed

lemma sum_list_unit:
  fixes xs :: "real list"
  assumes "\<forall>x\<in>set xs. 0 \<le> x \<and> x \<le> 1"
  shows "0 \<le> sum_list xs \<and> sum_list xs \<le> real (length xs)"
  using assms by (induction xs) auto

lemma mean_unit:
  assumes "xs \<noteq> []" "\<forall>x\<in>set xs. 0 \<le> x \<and> x \<le> 1"
  shows "0 \<le> mean xs \<and> mean xs \<le> 1"
proof -
  have "0 < real (length xs)" using assms(1) by simp
  then show ?thesis using sum_list_unit [OF assms(2)]
    by (simp add: mean_def divide_le_eq)
qed

lemma count_signals_le: "count_signals ty signals \<le> length signals"
  by (simp add: count_signals_def)

lemma technical_validation_bounds:
  assumes "\<forall>s\<in>set signals. 0 \<le> t_strength s \<and> t_strength s \<le> 1"
  shows "0 \<le> validate_technical_signals signals \<and> validate_technical_signals signals \<le> 1"
proof (cases "signals = []")
  case True
  then show ?thesis by (simp add: validate_technical_signals_def)
next
  case False
  let ?v = "(if count_signals ''BUY'' signals > count_signals ''SELL'' signals
             then real (count_signals ''BUY'' signals) / real (length signals)
             else if count_signals ''SELL'' signals > count_signals ''BUY'' signals
             then real (count_signals ''SELL'' signals) / real (length signals)
             else 0.5)"
  have len: "0 < real (length signals)" using False by simp
  have v: "0 \<le> ?v \<and> ?v \<le> 1"
    using len count_signals_le [of "''BUY''" signals] count_signals_le [of "''SELL''" signals]
    by (simp add: divide_le_eq)
  have m: "0 \<le> mean (map t_strength signals) \<and> mean (map t_strength signals) \<le> 1"
    using mean_unit [of "map t_strength signals"] False assms by simp
  have eq: "validate_technical_signals signals = ?v * mean (map t_strength signals)"
    using False by (simp add: validate_technical_signals_def Let_def)
  have "?v * mean (map t_strength signals) \<le> 1 * 1"
    using v m by (intro mult_mono) auto
  moreover have "0 \<le> ?v * mean (map t_strength signals)"
    using v m by (intro mult_nonneg_nonneg) auto
  ultimately show ?thesis unfolding eq by simp
qed

lemma sentiment_validation_bounds:
  assumes "\<forall>a. map_of sentiment_data ''aggregate'' = Some a \<longrightarrow>
             - 1 \<le> sd_sentiment_score a \<and> sd_sentiment_score a \<le> 1 \<and> 0 \<le> sd_volume a"
  shows "0 \<le> validate_sentiment sentiment_data \<and> validate_sentiment sentiment_data \<le> 1"
proof (cases "map_of sentiment_data ''aggregate''")
  case None
  then show ?thesis by (simp add: validate_sentiment_def)
next
  case (Some a)
  then have a: "- 1 \<le> sd_sentiment_score a" "sd_sentiment_score a \<le> 1" "0 \<le> sd_volume a"
    using assms by auto
  have ne: "sentiment_data \<noteq> []" using Some by auto
  let ?x = "\<bar>sd_sentiment_score a\<bar>"
  let ?y = "min (real_of_int (sd_volume a) / 100) 1"
  have x: "0 \<le> ?x \<and> ?x \<le> 1" using a by (simp add: abs_le_iff)
  have y: "0 \<le> ?y \<and> ?y \<le> 1" using a by simp
  have eq: "validate_sentiment sentiment_data = ?x * 0.7 + ?y * 0.3"
    using Some ne by (simp add: validate_sentiment_def Let_def)
  show ?thesis unfolding eq using x y by linarith
qed

lemma overall_confidence_bounds:
  assumes "0 \<le> a_confidence gpt4" "a_confidence gpt4 \<le> 1"
    and "0 \<le> a_confidence claude" "a_confidence claude \<le> 1"
    and "0 \<le> ag" "ag \<le> 1" "0 \<le> te" "te \<le> 1" "0 \<le> se" "se \<le> 1"
  shows "0 \<le> calculate_overall_confidence gpt4 claude ag te se
       \<and> calculate_overall_confidence gpt4 claude ag te se \<le> 1"
  using assms by (simp add: calculate_overall_confidence_def)


text \<open>
  C7.  When both opinion confidences lie in [0,1], every technical-signal strength lies in
  [0,1], and the aggregate sentiment (if present) has a score in [-1,1] and a non-negative
  mention volume, then the agreement score, the technical-validation score, the
  sentiment-validation score and the overall confidence computed from them all lie in [0,1].
  This holds for any pair of directional calls, on or off the 5-point scale.
\<close>

theorem scores_within_unit_interval:
  assumes "0 \<le> a_confidence gpt4 \<and> a_confidence gpt4 \<le> 1"
    and "0 \<le> a_confidence claude \<and> a_confidence claude \<le> 1"
    and "\<forall>s\<in>set signals. 0 \<le> t_strength s \<and> t_strength s \<le> 1"
    and "\<forall>a. map_of sentiment_data ''aggregate'' = Some a \<longrightarrow>
             - 1 \<le> sd_sentiment_score a \<and> sd_sentiment_score a \<le> 1 \<and> 0 \<le> sd_volume a"
  shows "0 \<le> calculate_agreement_score gpt4 claude \<and> calculate_agreement_score gpt4 claude \<le> 1
       \<and> 0 \<le> validate_technical_signals signals \<and> validate_technical_signals signals \<le> 1
       \<and> 0 \<le> validate_sentiment sentiment_data \<and> validate_sentiment sentiment_data \<le> 1
       \<and> 0 \<le> calculate_overall_confidence gpt4 claude (calculate_agreement_score gpt4 claude)
                 (validate_technical_signals signals) (validate_sentiment sentiment_data)
       \<and> calculate_overall_confidence gpt4 claude (calculate_agreement_score gpt4 claude)
            (validate_technical_signals signals) (validate_sentiment sentiment_data) \<le> 1"
proof -
  have ag: "0 \<le> calculate_agreement_score gpt4 claude \<and> calculate_agreement_score gpt4 claude \<le> 1"
    using assms(1,2) by (simp add: agreement_score_bounds)
  have te: "0 \<le> validate_technical_signals signals \<and> validate_technical_signals signals \<le> 1"
    using assms(3) by (rule technical_validation_bounds)
  have se: "0 \<le> validate_sentiment sentiment_data \<and> validate_sentiment sentiment_data \<le> 1"
    using assms(4) by (rule sentiment_validation_bounds)
  have "0 \<le> calculate_overall_confidence gpt4 claude (calculate_agreement_score gpt4 claude)
                 (validate_technical_signals signals) (validate_sentiment sentiment_data)
       \<and> calculate_overall_confidence gpt4 claude (calculate_agreement_score gpt4 claude)
            (validate_technical_signals signals) (validate_sentiment sentiment_data) \<le> 1"
    using assms(1,2) ag te se by (simp add: overall_confidence_bounds)
  with ag te se show ?thesis by blast
qed

theorem scores_within_unit_interval_witness:
  "(0 \<le> a_confidence (ex_opinion ''STRONG_BUY'' 0) \<and> a_confidence (ex_opinion ''STRONG_BUY'' 0) \<le> 1)
   \<and> (0 \<le> a_confidence (ex_opinion ''STRONG_SELL'' 1) \<and> a_confidence (ex_opinion ''STRONG_SELL'' 1) \<le> 1)
   \<and> calculate_agreement_score (ex_opinion ''STRONG_BUY'' 0) (ex_opinion ''STRONG_SELL'' 1) = 0.4
   \<and> 0 \<le> calculate_overall_confidence (ex_opinion ''STRONG_BUY'' 0) (ex_opinion ''STRONG_SELL'' 1)
            (calculate_agreement_score (ex_opinion ''STRONG_BUY'' 0) (ex_opinion ''STRONG_SELL'' 1))
            (validate_technical_signals ex_signals) (validate_sentiment ex_sentiment)
   \<and> calculate_overall_confidence (ex_opinion ''STRONG_BUY'' 0) (ex_opinion ''STRONG_SELL'' 1)
            (calculate_agreement_score (ex_opinion ''STRONG_BUY'' 0) (ex_opinion ''STRONG_SELL'' 1))
            (validate_technical_signals ex_signals) (validate_sentiment ex_sentiment) \<le> 1"
proof -
  have h1: "0 \<le> a_confidence (ex_opinion ''STRONG_BUY'' 0) \<and> a_confidence (ex_opinion ''STRONG_BUY'' 0) \<le> 1"
    by (simp add: ex_opinion_def)
  have h2: "0 \<le> a_confidence (ex_opinion ''STRONG_SELL'' 1) \<and> a_confidence (ex_opinion ''STRONG_SELL'' 1) \<le> 1"
    by (simp add: ex_opinion_def)
  have h3: "\<forall>s\<in>set ex_signals. 0 \<le> t_strength s \<and> t_strength s \<le> 1"
    by (simp add: ex_signals_def ex_signal_def)
  have h4: "\<forall>a. map_of ex_sentiment ''aggregate'' = Some a \<longrightarrow>
             - 1 \<le> sd_sentiment_score a \<and> sd_sentiment_score a \<le> 1 \<and> 0 \<le> sd_volume a"
    by (simp add: ex_sentiment_def)
  have v: "calculate_agreement_score (ex_opinion ''STRONG_BUY'' 0) (ex_opinion ''STRONG_SELL'' 1) = 0.4"
    by (simp add: calculate_agreement_score_def ex_opinion_def rec_map_def)
  from scores_within_unit_interval [OF h1 h2 h3 h4] h1 h2 v show ?thesis by blast
qed

section \<open>Opposite calls\<close>

lemma buy_sell_le: "count_signals ''BUY'' signals + count_signals ''SELL'' signals \<le> length signals"
  unfolding count_signals_def by (induction signals) auto

lemma tech_score_range:
  "\<bar>real_of_int (int (count_signals ''BUY'' signals) - int (count_signals ''SELL'' signals))
      / real (max (length signals) 1)\<bar> \<le> 1"
proof -
  have "\<bar>int (count_signals ''BUY'' signals) - int (count_signals ''SELL'' signals)\<bar>
          \<le> int (max (length signals) 1)"
    using buy_sell_le [of signals] by linarith
  then have "real_of_int \<bar>int (count_signals ''BUY'' signals) - int (count_signals ''SELL'' signals)\<bar>
          \<le> real_of_int (int (max (length signals) 1))"
    by (rule iffD2 [OF of_int_le_iff])
  then have "\<bar>real_of_int (int (count_signals ''BUY'' signals) - int (count_signals ''SELL'' signals))\<bar>
          \<le> real (max (length signals) 1)"
    by simp
  moreover have "0 < real (max (length signals) 1)" by simp
  ultimately show ?thesis by (simp add: divide_le_eq)
qed

lemma opposite_calls_no_trade:
  assumes "rec_map (a_recommendation gpt4) + rec_map (a_recommendation claude) = 0"
  shows "determine_trade_action gpt4 claude technical_signals confidence = ''NO_TRADE''"
proof -
  define T where "T = real_of_int (int (count_signals ''BUY'' technical_signals)
                        - int (count_signals ''SELL'' technical_signals))
                      / real (max (length technical_signals) 1)"
  have T: "\<bar>T\<bar> \<le> 1" unfolding T_def by (rule tech_score_range)
  have c: "\<not> (0 * 0.7 + T * 0.3 \<ge> 0.5)" "\<not> (0 * 0.7 + T * 0.3 \<le> - 0.5)"
    using T by (auto simp: abs_le_iff)
  have avg: "real_of_int (rec_map (a_recommendation gpt4) + rec_map (a_recommendation claude)) / 2 = 0"
    using assms by simp
  show ?thesis
    unfolding determine_trade_action_def Let_def avg T_def [symmetric] using c by simp
qed

text \<open>
  C8.  When one opinion calls STRONG_BUY and the other STRONG_SELL, both with confidence 0.8,
  \<^verbatim>\<open>generate_consensus\<close> returns \<^verbatim>\<open>None\<close>, whatever the technical signals, the
  sentiment, the market data, the price and the clock are: the two calls cancel, and the
  technical bias alone weighs at most 0.3 against the bound 0.5.
\<close>

theorem opposite_strong_calls_abstain:
  assumes "(a_recommendation gpt4 = ''STRONG_BUY'' \<and> a_recommendation claude = ''STRONG_SELL'')
         \<or> (a_recommendation gpt4 = ''STRONG_SELL'' \<and> a_recommendation claude = ''STRONG_BUY'')"
    and "a_confidence gpt4 = 0.8" and "a_confidence claude = 0.8"
  shows "generate_consensus gpt4 claude technical_signals sentiment_data market_data current_price now
           = Inr None"
proof -
  have "rec_map (a_recommendation gpt4) + rec_map (a_recommendation claude) = 0"
    using assms(1) by (auto simp: rec_map_def)
  then have "determine_trade_action gpt4 claude technical_signals confidence = ''NO_TRADE''" for confidence
    by (rule opposite_calls_no_trade)
  then show ?thesis by (simp add: generate_consensus_def Let_def)
qed

theorem opposite_strong_calls_abstain_witness:
  "generate_consensus (ex_opinion ''STRONG_BUY'' 0.8) (ex_opinion ''STRONG_SELL'' 0.8)
      ex_signals ex_sentiment ex_market 100 0 = Inr None"
  using opposite_strong_calls_abstain
          [of "ex_opinion ''STRONG_BUY'' 0.8" "ex_opinion ''STRONG_SELL'' 0.8" ex_signals ex_sentiment ex_market 100 0]
  by (simp add: ex_opinion_def)

section \<open>The consensus and the clock\<close>

lemma ex_confidence:
  "calculate_overall_confidence (ex_opinion ''STRONG_BUY'' 0.9) (ex_opinion ''STRONG_BUY'' 0.85)
     (calculate_agreement_score (ex_opinion ''STRONG_BUY'' 0.9) (ex_opinion ''STRONG_BUY'' 0.85))
     (validate_technical_signals ex_signals) (validate_sentiment ex_sentiment) = 0.848"
  by (simp add: calculate_overall_confidence_def calculate_agreement_score_def validate_technical_signals_def
      validate_sentiment_def ex_opinion_def ex_signals_def ex_signal_def ex_sentiment_def rec_map_def
      count_signals_def mean_def)

lemma ex_action:
  "determine_trade_action (ex_opinion ''STRONG_BUY'' 0.9) (ex_opinion ''STRONG_BUY'' 0.85) ex_signals 0.848
     = ''LONG''"
  by (simp add: determine_trade_action_def min_confidence_threshold_def ex_opinion_def ex_signals_def
      ex_signal_def rec_map_def count_signals_def)

lemma ex_timestamp:
  "map_sum id (map_option r_timestamp)
     (generate_consensus (ex_opinion ''STRONG_BUY'' 0.9) (ex_opinion ''STRONG_BUY'' 0.85)
        ex_signals ex_sentiment ex_market 100 now) = Inr (Some now)"
  unfolding generate_consensus_def Let_def ex_confidence ex_action
  by (simp add: calculate_trade_parameters_def Let_def ex_opinion_def)

text \<open>
  C1 as stated fails: the same arguments at two clock readings give two recommendations
  that differ (in their timestamp).
\<close>

theorem consensus_timestamp_counterexample:
  "generate_consensus (ex_opinion ''STRONG_BUY'' 0.9) (ex_opinion ''STRONG_BUY'' 0.85)
      ex_signals ex_sentiment ex_market 100 0
   \<noteq> generate_consensus (ex_opinion ''STRONG_BUY'' 0.9) (ex_opinion ''STRONG_BUY'' 0.85)
      ex_signals ex_sentiment ex_market 100 1"
proof
  assume "generate_consensus (ex_opinion ''STRONG_BUY'' 0.9) (ex_opinion ''STRONG_BUY'' 0.85)
      ex_signals ex_sentiment ex_market 100 0
   = generate_consensus (ex_opinion ''STRONG_BUY'' 0.9) (ex_opinion ''STRONG_BUY'' 0.85)
      ex_signals ex_sentiment ex_market 100 1"
  then have "map_sum id (map_option r_timestamp)
     (generate_consensus (ex_opinion ''STRONG_BUY'' 0.9) (ex_opinion ''STRONG_BUY'' 0.85)
        ex_signals ex_sentiment ex_market 100 0)
    = map_sum id (map_option r_timestamp)
     (generate_consensus (ex_opinion ''STRONG_BUY'' 0.9) (ex_opinion ''STRONG_BUY'' 0.85)
        ex_signals ex_sentiment ex_market 100 1)"
    by simp
  then show False unfolding ex_timestamp by simp
qed

text \<open>
  C1, amended.  Two calls of \<^verbatim>\<open>generate_consensus\<close> with identical arguments either
  both raise the same exception, or both abstain, or return recommendations equal in every
  field but the timestamp, which is the clock reading of each call: the result of the second
  call is the result of the first with the timestamp replaced.
\<close>

theorem consensus_result_depends_on_clock_only_in_timestamp:
  "generate_consensus g c ts sd md cp now2
     = map_sum id (map_option (\<lambda>r. r\<lparr>r_timestamp := now2\<rparr>)) (generate_consensus g c ts sd md cp now1)"
  by (simp add: generate_consensus_def Let_def split: sum.splits)


section \<open>Trade validation\<close>

lemma position_size_returns:
  assumes "current_price \<noteq> 0" and "r_stop_loss recommendation \<noteq> current_price"
  shows "\<exists>amount. calculate_position_size s recommendation current_price balance = Inr amount"
  using assms by (simp add: calculate_position_size_def Let_def)

lemma position_size_le_kelly:
  assumes "calculate_position_size s recommendation current_price balance = Inr amount"
  shows "amount \<le> balance *
           (if r_risk_reward_ratio recommendation > 0
            then max 0 (min ((r_confidence recommendation * r_risk_reward_ratio recommendation
                               - (1 - r_confidence recommendation))
                             / r_risk_reward_ratio recommendation) 0.25)
            else 0)"
proof -
  have c: "current_price \<noteq> 0"
    using assms by (auto simp: calculate_position_size_def Let_def)
  have m: "(if r_action recommendation = ''LONG''
            then current_price - r_stop_loss recommendation
            else r_stop_loss recommendation - current_price) / current_price \<noteq> 0"
    using assms c unfolding calculate_position_size_def Let_def
    by (simp split: if_split_asm)
  have "Inr amount = calculate_position_size s recommendation current_price balance"
    using assms by simp
  also have "\<dots> = Inr (min (min (balance * r_position_size_percent recommendation)
            (balance * (if r_risk_reward_ratio recommendation > 0
            then max 0 (min ((r_confidence recommendation * r_risk_reward_ratio recommendation
                               - (1 - r_confidence recommendation))
                             / r_risk_reward_ratio recommendation) 0.25)
            else 0)))
          ((balance * risk_per_trade s) / ((if r_action recommendation = ''LONG''
            then current_price - r_stop_loss recommendation
            else r_stop_loss recommendation - current_price) / current_price)))"
    unfolding calculate_position_size_def Let_def using c m by (simp only: if_False)
  finally show ?thesis
    by (simp only: sum.inject min.cobounded1 min.cobounded2 min.coboundedI1)
qed

lemma kelly_nonpositive_size:
  assumes "r_risk_reward_ratio recommendation \<le> 0
           \<or> r_confidence recommendation * r_risk_reward_ratio recommendation
                \<le> 1 - r_confidence recommendation"
    and "calculate_position_size s recommendation current_price balance = Inr amount"
  shows "amount \<le> 0"
proof -
  let ?b = "r_risk_reward_ratio recommendation"
  let ?p = "r_confidence recommendation"
  let ?k = "(if ?b > 0 then max 0 (min ((?p * ?b - (1 - ?p)) / ?b) 0.25) else 0)"
  have k: "?k = 0"
  proof (cases "?b > 0")
    case True
    then have "?p * ?b \<le> 1 - ?p" using assms(1) by auto
    then have "(?p * ?b - (1 - ?p)) / ?b \<le> 0" using True by (simp add: divide_le_0_iff)
    then show ?thesis using True by simp
  next
    case False
    then show ?thesis by simp
  qed
  have "amount \<le> balance * ?k"
    using assms(2) by (rule position_size_le_kelly)
  then show ?thesis unfolding k by simp
qed

text \<open>
  C9, amended.  For every recommendation whose Kelly fraction is non-positive (risk/reward
  ratio at most 0, or confidence times ratio at most 1 minus confidence), whose stop-loss
  differs from the current price, and for a current price other than zero: when the
  open-position count is below the concurrency cap, \<^verbatim>\<open>validate_trade\<close> rejects with
  the reason "Position size too small" and amount 0, for every account balance.
\<close>

theorem nonpositive_kelly_rejected_as_too_small:
  assumes "r_risk_reward_ratio recommendation \<le> 0
           \<or> r_confidence recommendation * r_risk_reward_ratio recommendation
                \<le> 1 - r_confidence recommendation"
    and "r_stop_loss recommendation \<noteq> current_price"
    and "current_price \<noteq> 0"
    and "int (length (positions s)) < max_concurrent_positions s"
  shows "validate_trade s recommendation current_price balance
           = Inr (False, Position_size_too_small, 0)"
proof -
  obtain amount where a: "calculate_position_size s recommendation current_price balance = Inr amount"
    using position_size_returns [OF assms(3,2)] by blast
  have "amount \<le> 0" using assms(1) a by (rule kelly_nonpositive_size)
  then have "(if amount > max_position_size s then max_position_size s else amount) < 10"
    by simp
  then show ?thesis using assms(4) a by (simp add: validate_trade_def Let_def)
qed

theorem nonpositive_kelly_rejected_as_too_small_witness:
  "validate_trade ex_manager (ex_recommendation 0.3 1 95) 100 10000
     = Inr (False, Position_size_too_small, 0)"
  using nonpositive_kelly_rejected_as_too_small [of "ex_recommendation 0.3 1 95" 100 ex_manager 10000]
  by (simp add: ex_recommendation_def ex_manager_def init_def)

text \<open>
  C9 as stated fails at a current price of zero: the stop-loss (95) differs from the price,
  the Kelly fraction is non-positive, the book is empty, and the call raises
  \<^verbatim>\<open>ZeroDivisionError\<close> in \<^verbatim>\<open>max_loss / current_price\<close> instead of rejecting.
\<close>

theorem zero_price_counterexample:
  "validate_trade ex_manager (ex_recommendation 0.3 1 95) 0 10000 = Inl ZeroDivisionError"
  by (simp add: validate_trade_def calculate_position_size_def ex_manager_def init_def)

subsection \<open>The stop-loss distance check\<close>

lemma existing_positions_risk_error:
  "existing_positions_risk s ps acc = Inl e \<Longrightarrow> e = ZeroDivisionError"
  by (induction ps arbitrary: acc) (auto simp: Let_def split: if_splits)

lemma existing_positions_risk_returns:
  "\<forall>p\<in>set ps. p_current_price p \<noteq> 0 \<Longrightarrow> \<exists>risk. existing_positions_risk s ps acc = Inr risk"
  by (induction ps arbitrary: acc) (auto simp: Let_def)

lemma portfolio_risk_error:
  "calculate_portfolio_risk s amount recommendation = Inl e \<Longrightarrow> e = ZeroDivisionError"
  unfolding calculate_portfolio_risk_def Let_def
  by (auto split: sum.splits if_splits dest: existing_positions_risk_error)

lemma portfolio_risk_returns:
  assumes "r_entry_price recommendation \<noteq> 0" and "\<forall>p\<in>set (positions s). p_current_price p \<noteq> 0"
  shows "\<exists>risk. calculate_portfolio_risk s amount recommendation = Inr risk"
proof -
  obtain t where "existing_positions_risk s (positions s) 0 = Inr t"
    using existing_positions_risk_returns [OF assms(2)] by blast
  then show ?thesis using assms(1) by (simp add: calculate_portfolio_risk_def Let_def)
qed

lemma fifteen_percent:
  fixes current_price :: real
  assumes "0 < current_price"
  shows "(current_price - current_price * 0.85) / current_price = 0.15"
  using assms by (simp add: field_simps)

lemma validate_trade_after_sizing:
  assumes "int (length (positions s)) < max_concurrent_positions s"
    and "calculate_position_size s recommendation current_price balance = Inr amount"
    and "10 \<le> min amount (max_position_size s)"
    and "calculate_portfolio_risk s (min amount (max_position_size s)) recommendation = Inr risk"
  shows "validate_trade s recommendation current_price balance =
           (if risk > max_portfolio_risk s then Inr (False, Portfolio_risk_too_high risk, 0)
            else if check_correlation_risk s (r_symbol recommendation) > correlation_threshold s
            then Inr (False, High_correlation_with_existing_positions
                               (check_correlation_risk s (r_symbol recommendation)), 0)
            else if (if r_action recommendation = ''LONG''
                     then (current_price - r_stop_loss recommendation) / current_price
                     else (r_stop_loss recommendation - current_price) / current_price) > 0.1
            then Inr (False, Stop_loss_too_far
                               (if r_action recommendation = ''LONG''
                                then (current_price - r_stop_loss recommendation) / current_price
                                else (r_stop_loss recommendation - current_price) / current_price), 0)
            else Inr (True, Trade_validated, min amount (max_position_size s)))"
proof -
  have m: "(if amount > max_position_size s then max_position_size s else amount)
             = min amount (max_position_size s)"
    by (simp add: min_def)
  show ?thesis
    unfolding validate_trade_def Let_def assms(2) sum.case m
    using assms(1,3,4) by (simp add: min_less_iff_disj)
qed

lemma stop_loss_15_percent_outcome:
  assumes "r_action recommendation = ''LONG''"
    and "0 < current_price"
    and "r_stop_loss recommendation = current_price * 0.85"
    and "calculate_position_size s recommendation current_price balance = Inr amount"
  shows "validate_trade s recommendation current_price balance =
           (if max_concurrent_positions s \<le> int (length (positions s))
            then Inr (False, Maximum_concurrent_positions_reached, 0)
            else if min amount (max_position_size s) < 10
            then Inr (False, Position_size_too_small, 0)
            else
              (case calculate_portfolio_risk s (min amount (max_position_size s)) recommendation of
                 Inl e \<Rightarrow> Inl e
               | Inr risk \<Rightarrow>
                   (if max_portfolio_risk s < risk then Inr (False, Portfolio_risk_too_high risk, 0)
                    else if correlation_threshold s < check_correlation_risk s (r_symbol recommendation)
                    then Inr (False, High_correlation_with_existing_positions
                                       (check_correlation_risk s (r_symbol recommendation)), 0)
                    else Inr (False, Stop_loss_too_far 0.15, 0))))"
proof -
  let ?v = "validate_trade s recommendation current_price balance"
  have pct: "(current_price - r_stop_loss recommendation) / current_price = 0.15"
    unfolding assms(3) using assms(2) by (rule fifteen_percent)
  have m: "(if amount > max_position_size s then max_position_size s else amount)
             = min amount (max_position_size s)"
    by (simp add: min_def)
  show ?thesis
  proof (cases "max_concurrent_positions s \<le> int (length (positions s))")
    case True
    then show ?thesis by (simp add: validate_trade_def)
  next
    case False
    then have cap: "int (length (positions s)) < max_concurrent_positions s" by simp
    show ?thesis
    proof (cases "min amount (max_position_size s) < 10")
      case True
      have "?v = Inr (False, Position_size_too_small, 0)"
        unfolding validate_trade_def Let_def assms(4) sum.case m using cap True by simp
      then show ?thesis using False True by simp
    next
      case big: False
      then have big': "10 \<le> min amount (max_position_size s)" by (simp only: not_less)
      show ?thesis
      proof (cases "calculate_portfolio_risk s (min amount (max_position_size s)) recommendation")
        case (Inl e)
        have "?v = Inl e"
          unfolding validate_trade_def Let_def assms(4) sum.case m Inl using cap big by simp
        then show ?thesis using False big Inl by simp
      next
        case (Inr risk)
        have "?v = (if risk > max_portfolio_risk s then Inr (False, Portfolio_risk_too_high risk, 0)
            else if check_correlation_risk s (r_symbol recommendation) > correlation_threshold s
            then Inr (False, High_correlation_with_existing_positions
                               (check_correlation_risk s (r_symbol recommendation)), 0)
            else Inr (False, Stop_loss_too_far 0.15, 0))"
          using validate_trade_after_sizing [OF cap assms(4) big' Inr]
          by (simp add: assms(1) pct)
        then show ?thesis using False big Inr by simp
      qed
    qed
  qed
qed

text \<open>
  C2, amended.  For every LONG recommendation whose stop-loss lies 15% below the positive
  current price passed to \<^verbatim>\<open>validate_trade\<close> (the callers pass the entry price), the
  call never accepts: it rejects with amount 0, or raises \<^verbatim>\<open>ZeroDivisionError\<close> in the
  portfolio-risk computation; it rejects whenever the entry price and the current prices of
  the open positions are non-zero.  The sizing always returns, and the reason is that of the
  first failing check, in the order of the code: the concurrency reason when the count has
  reached the cap; otherwise the size reason when the capped size is below 10; otherwise
  the portfolio-risk reason, with the computed risk, when that risk exceeds its ceiling;
  otherwise the correlation reason, with the computed score, when the score exceeds its
  threshold; otherwise, all four earlier checks having passed, the stop-loss distance
  (15%).
\<close>

theorem stop_loss_15_percent_never_accepted:
  assumes "r_action recommendation = ''LONG''"
    and "0 < current_price"
    and "r_stop_loss recommendation = current_price * 0.85"
  shows "((\<exists>why. validate_trade s recommendation current_price balance = Inr (False, why, 0))
          \<or> validate_trade s recommendation current_price balance = Inl ZeroDivisionError)
       \<and> (r_entry_price recommendation \<noteq> 0 \<and> (\<forall>p\<in>set (positions s). p_current_price p \<noteq> 0)
            \<longrightarrow> (\<exists>why. validate_trade s recommendation current_price balance = Inr (False, why, 0)))
       \<and> (int (length (positions s)) < max_concurrent_positions s
            \<and> calculate_position_size s recommendation current_price balance = Inr amount
            \<and> 10 \<le> min amount (max_position_size s)
            \<and> calculate_portfolio_risk s (min amount (max_position_size s)) recommendation = Inr risk
            \<and> risk \<le> max_portfolio_risk s
            \<and> check_correlation_risk s (r_symbol recommendation) \<le> correlation_threshold s
            \<longrightarrow> validate_trade s recommendation current_price balance
                  = Inr (False, Stop_loss_too_far 0.15, 0))
       \<and> (\<exists>a. calculate_position_size s recommendation current_price balance = Inr a)
       \<and> (max_concurrent_positions s \<le> int (length (positions s))
            \<longrightarrow> validate_trade s recommendation current_price balance
                  = Inr (False, Maximum_concurrent_positions_reached, 0))
       \<and> (int (length (positions s)) < max_concurrent_positions s
            \<and> calculate_position_size s recommendation current_price balance = Inr amount
            \<and> min amount (max_position_size s) < 10
            \<longrightarrow> validate_trade s recommendation current_price balance
                  = Inr (False, Position_size_too_small, 0))
       \<and> (int (length (positions s)) < max_concurrent_positions s
            \<and> calculate_position_size s recommendation current_price balance = Inr amount
            \<and> 10 \<le> min amount (max_position_size s)
            \<and> calculate_portfolio_risk s (min amount (max_position_size s)) recommendation = Inr risk
            \<and> max_portfolio_risk s < risk
            \<longrightarrow> validate_trade s recommendation current_price balance
                  = Inr (False, Portfolio_risk_too_high risk, 0))
       \<and> (int (length (positions s)) < max_concurrent_positions s
            \<and> calculate_position_size s recommendation current_price balance = Inr amount
            \<and> 10 \<le> min amount (max_position_size s)
            \<and> calculate_portfolio_risk s (min amount (max_position_size s)) recommendation = Inr risk
            \<and> risk \<le> max_portfolio_risk s
            \<and> correlation_threshold s < check_correlation_risk s (r_symbol recommendation)
            \<longrightarrow> validate_trade s recommendation current_price balance
                  = Inr (False, High_correlation_with_existing_positions
                                  (check_correlation_risk s (r_symbol recommendation)), 0))
       \<and> (int (length (positions s)) < max_concurrent_positions s
            \<and> calculate_position_size s recommendation current_price balance = Inr amount
            \<and> 10 \<le> min amount (max_position_size s)
            \<and> calculate_portfolio_risk s (min amount (max_position_size s)) recommendation = Inl e
            \<longrightarrow> validate_trade s recommendation current_price balance = Inl e
                \<and> e = ZeroDivisionError)"
proof -
  let ?v = "validate_trade s recommendation current_price balance"
  let ?size = "calculate_position_size s recommendation current_price balance"
  let ?corr = "check_correlation_risk s (r_symbol recommendation)"
  note outcome = stop_loss_15_percent_outcome [OF assms]
  have ne: "current_price \<noteq> 0" "r_stop_loss recommendation \<noteq> current_price"
    using assms(2,3) by auto
  obtain sz where sz: "?size = Inr sz"
    using position_size_returns [OF ne] by blast
  have size_returns: "\<exists>a. ?size = Inr a" using sz by blast
  have at_cap: "?v = Inr (False, Maximum_concurrent_positions_reached, 0)"
    if "max_concurrent_positions s \<le> int (length (positions s))"
    using outcome [OF sz] that by simp
  have too_small: "?v = Inr (False, Position_size_too_small, 0)"
    if "int (length (positions s)) < max_concurrent_positions s" "?size = Inr a"
      "min a (max_position_size s) < 10" for a
    using outcome [OF that(2)] that(1,3) by simp
  have risk_raises: "?v = Inl x \<and> x = ZeroDivisionError"
    if "int (length (positions s)) < max_concurrent_positions s" "?size = Inr a"
      "10 \<le> min a (max_position_size s)"
      "calculate_portfolio_risk s (min a (max_position_size s)) recommendation = Inl x" for a x
  proof -
    have "\<not> min a (max_position_size s) < 10" using that(3) by (simp only: not_less)
    then have "?v = Inl x" using outcome [OF that(2)] that(1,4) by simp
    then show ?thesis using portfolio_risk_error [OF that(4)] by simp
  qed
  have after: "?v = (if max_portfolio_risk s < r then Inr (False, Portfolio_risk_too_high r, 0)
            else if correlation_threshold s < ?corr
            then Inr (False, High_correlation_with_existing_positions ?corr, 0)
            else Inr (False, Stop_loss_too_far 0.15, 0))"
    if "int (length (positions s)) < max_concurrent_positions s" "?size = Inr a"
      "10 \<le> min a (max_position_size s)"
      "calculate_portfolio_risk s (min a (max_position_size s)) recommendation = Inr r" for a r
  proof -
    have "\<not> min a (max_position_size s) < 10" using that(3) by (simp only: not_less)
    then show ?thesis using outcome [OF that(2)] that(1,4) by simp
  qed
  have risk_high: "?v = Inr (False, Portfolio_risk_too_high r, 0)"
    if "int (length (positions s)) < max_concurrent_positions s" "?size = Inr a"
      "10 \<le> min a (max_position_size s)"
      "calculate_portfolio_risk s (min a (max_position_size s)) recommendation = Inr r"
      "max_portfolio_risk s < r" for a r
    using after [OF that(1-4)] that(5) by simp
  have corr_high: "?v = Inr (False, High_correlation_with_existing_positions ?corr, 0)"
    if "int (length (positions s)) < max_concurrent_positions s" "?size = Inr a"
      "10 \<le> min a (max_position_size s)"
      "calculate_portfolio_risk s (min a (max_position_size s)) recommendation = Inr r"
      "r \<le> max_portfolio_risk s" "correlation_threshold s < ?corr" for a r
    using after [OF that(1-4)] that(5,6) by simp
  have stop_far: "?v = Inr (False, Stop_loss_too_far 0.15, 0)"
    if "int (length (positions s)) < max_concurrent_positions s" "?size = Inr a"
      "10 \<le> min a (max_position_size s)"
      "calculate_portfolio_risk s (min a (max_position_size s)) recommendation = Inr r"
      "r \<le> max_portfolio_risk s" "?corr \<le> correlation_threshold s" for a r
    using after [OF that(1-4)] that(5,6) by simp
  have cases: "(\<exists>why. ?v = Inr (False, why, 0))
       \<or> (\<exists>x. calculate_portfolio_risk s (min sz (max_position_size s)) recommendation = Inl x
               \<and> ?v = Inl x)"
  proof (cases "calculate_portfolio_risk s (min sz (max_position_size s)) recommendation")
    case (Inl x)
    show ?thesis
    proof (cases "int (length (positions s)) < max_concurrent_positions s")
      case False
      then show ?thesis using at_cap by simp
    next
      case cap: True
      show ?thesis
      proof (cases "10 \<le> min sz (max_position_size s)")
        case True
        then show ?thesis using risk_raises [OF cap sz True Inl] Inl by blast
      next
        case False
        then have "min sz (max_position_size s) < 10" by (simp only: not_le)
        then show ?thesis using too_small [OF cap sz] by blast
      qed
    qed
  next
    case (Inr r)
    show ?thesis using outcome [OF sz] Inr by simp
  qed
  have first: "(\<exists>why. ?v = Inr (False, why, 0)) \<or> ?v = Inl ZeroDivisionError"
    using cases portfolio_risk_error by blast
  have second: "\<exists>why. ?v = Inr (False, why, 0)"
    if "r_entry_price recommendation \<noteq> 0" "\<forall>p\<in>set (positions s). p_current_price p \<noteq> 0"
    using cases portfolio_risk_returns [OF that, of "min sz (max_position_size s)"] by auto
  show ?thesis
  proof (intro conjI impI)
    show "(\<exists>why. ?v = Inr (False, why, 0)) \<or> ?v = Inl ZeroDivisionError" by (rule first)
    show "\<exists>a. ?size = Inr a" by (rule size_returns)
  qed (use second at_cap too_small risk_high corr_high stop_far risk_raises in \<open>blast+\<close>)
qed

lemma ex_long_15:
  "r_action (ex_recommendation c b 85) = ''LONG''"
  "r_stop_loss (ex_recommendation c b 85) = 100 * 0.85"
  by (simp_all add: ex_recommendation_def)

lemma ex_size_800:
  "risk_per_trade s = 0.02 \<Longrightarrow> calculate_position_size s (ex_recommendation 0.8 2 85) 100 10000 = Inr 800"
  by (simp add: calculate_position_size_def ex_recommendation_def)

theorem stop_loss_15_percent_never_accepted_witness:
  "validate_trade ex_full_manager (ex_recommendation 0.8 2 85) 100 10000
     = Inr (False, Maximum_concurrent_positions_reached, 0)
   \<and> validate_trade ex_manager (ex_recommendation 0.3 1 85) 100 10000
     = Inr (False, Position_size_too_small, 0)
   \<and> validate_trade ex_risky_manager (ex_recommendation 0.8 2 85) 100 10000
     = Inr (False, Portfolio_risk_too_high 0.062, 0)
   \<and> validate_trade ex_correlated_manager (ex_recommendation 0.8 2 85) 100 10000
     = Inr (False, High_correlation_with_existing_positions 1, 0)
   \<and> validate_trade ex_manager (ex_recommendation 0.8 2 85) 100 10000
     = Inr (False, Stop_loss_too_far 0.15, 0)"
proof -
  have pos: "(0::real) < 100" by simp
  note inst8 = stop_loss_15_percent_never_accepted
                 [OF ex_long_15(1) [of "0.8" 2] pos ex_long_15(2) [of "0.8" 2]]
  note inst3 = stop_loss_15_percent_never_accepted
                 [OF ex_long_15(1) [of "0.3" 1] pos ex_long_15(2) [of "0.3" 1]]
  have full: "max_concurrent_positions ex_full_manager \<le> int (length (positions ex_full_manager))"
    by (simp add: ex_full_manager_def ex_manager_def init_def)
  have w1: "validate_trade ex_full_manager (ex_recommendation 0.8 2 85) 100 10000
     = Inr (False, Maximum_concurrent_positions_reached, 0)"
    using inst8 [of ex_full_manager 10000] full by blast
  have room: "int (length (positions ex_manager)) < max_concurrent_positions ex_manager"
    "int (length (positions ex_risky_manager)) < max_concurrent_positions ex_risky_manager"
    "int (length (positions ex_correlated_manager)) < max_concurrent_positions ex_correlated_manager"
    by (simp_all add: ex_risky_manager_def ex_correlated_manager_def ex_manager_def init_def)
  have rpt: "risk_per_trade ex_manager = 0.02" "risk_per_trade ex_risky_manager = 0.02"
    "risk_per_trade ex_correlated_manager = 0.02"
    by (simp_all add: ex_risky_manager_def ex_correlated_manager_def ex_manager_def init_def)
  have cap1000: "max_position_size ex_manager = 1000" "max_position_size ex_risky_manager = 1000"
    "max_position_size ex_correlated_manager = 1000"
    by (simp_all add: ex_risky_manager_def ex_correlated_manager_def ex_manager_def init_def)
  have size0: "calculate_position_size ex_manager (ex_recommendation 0.3 1 85) 100 10000 = Inr 0"
    by (simp add: calculate_position_size_def ex_recommendation_def rpt)
  have small: "min 0 (max_position_size ex_manager) < 10" by (simp add: cap1000)
  have w2: "validate_trade ex_manager (ex_recommendation 0.3 1 85) 100 10000
     = Inr (False, Position_size_too_small, 0)"
    using inst3 [of ex_manager 10000 0] room(1) size0 small by blast
  have big: "10 \<le> min 800 (max_position_size ex_manager)"
    "10 \<le> min 800 (max_position_size ex_risky_manager)"
    "10 \<le> min 800 (max_position_size ex_correlated_manager)"
    by (simp_all add: cap1000)
  have risk3: "calculate_portfolio_risk ex_risky_manager (min 800 (max_position_size ex_risky_manager))
                 (ex_recommendation 0.8 2 85) = Inr 0.062"
    by (simp add: calculate_portfolio_risk_def get_total_portfolio_value_def ex_recommendation_def
        ex_risky_manager_def ex_manager_def init_def ex_position_def)
  have high3: "max_portfolio_risk ex_risky_manager < 0.062"
    by (simp add: ex_risky_manager_def ex_manager_def init_def)
  have w3: "validate_trade ex_risky_manager (ex_recommendation 0.8 2 85) 100 10000
     = Inr (False, Portfolio_risk_too_high 0.062, 0)"
    using inst8 [of ex_risky_manager 10000 800 "0.062"]
      room(2) ex_size_800 [OF rpt(2)] big(2) risk3 high3 by blast
  have risk4: "calculate_portfolio_risk ex_correlated_manager
                 (min 800 (max_position_size ex_correlated_manager))
                 (ex_recommendation 0.8 2 85) = Inr 0.0135"
    by (simp add: calculate_portfolio_risk_def get_total_portfolio_value_def ex_recommendation_def
        ex_correlated_manager_def ex_manager_def init_def ex_position_def)
  have low4: "0.0135 \<le> max_portfolio_risk ex_correlated_manager"
    by (simp add: ex_correlated_manager_def ex_manager_def init_def)
  have corr4: "check_correlation_risk ex_correlated_manager (r_symbol (ex_recommendation 0.8 2 85)) = 1"
    by (simp add: check_correlation_risk_def ex_correlated_manager_def ex_position_def
        ex_recommendation_def)
  have high4: "correlation_threshold ex_correlated_manager
                 < check_correlation_risk ex_correlated_manager (r_symbol (ex_recommendation 0.8 2 85))"
    unfolding corr4 by (simp add: ex_correlated_manager_def ex_manager_def init_def)
  have "validate_trade ex_correlated_manager (ex_recommendation 0.8 2 85) 100 10000
     = Inr (False, High_correlation_with_existing_positions
             (check_correlation_risk ex_correlated_manager (r_symbol (ex_recommendation 0.8 2 85))), 0)"
    using inst8 [of ex_correlated_manager 10000 800 "0.0135"]
      room(3) ex_size_800 [OF rpt(3)] big(3) risk4 low4 high4 by blast
  then have w4: "validate_trade ex_correlated_manager (ex_recommendation 0.8 2 85) 100 10000
     = Inr (False, High_correlation_with_existing_positions 1, 0)"
    unfolding corr4 .
  have risk5: "calculate_portfolio_risk ex_manager (min 800 (max_position_size ex_manager))
         (ex_recommendation 0.8 2 85) = Inr 0.012"
    by (simp add: calculate_portfolio_risk_def get_total_portfolio_value_def ex_recommendation_def
        ex_manager_def init_def)
  have low5: "0.012 \<le> max_portfolio_risk ex_manager"
    by (simp add: ex_manager_def init_def)
  have corr5: "check_correlation_risk ex_manager (r_symbol (ex_recommendation 0.8 2 85))
               \<le> correlation_threshold ex_manager"
    by (simp add: check_correlation_risk_def ex_manager_def init_def)
  have w5: "validate_trade ex_manager (ex_recommendation 0.8 2 85) 100 10000
         = Inr (False, Stop_loss_too_far 0.15, 0)"
    using inst8 [of ex_manager 10000 800 "0.012"]
      room(1) ex_size_800 [OF rpt(1)] big(1) risk5 low5 corr5 by blast
  from w1 w2 w3 w4 w5 show ?thesis by blast
qed

text \<open>
  C2 as stated fails: with the book at the concurrency cap, the reason returned for a
  recommendation with a 15% stop-loss is the concurrency one, since that check comes first.
\<close>

theorem stop_loss_reason_counterexample:
  "validate_trade ex_full_manager (ex_recommendation 0.8 2 85) 100 10000
     = Inr (False, Maximum_concurrent_positions_reached, 0)"
  by (simp add: validate_trade_def ex_full_manager_def ex_manager_def init_def)

section \<open>Position lifecycle\<close>

lemma update_position_frame:
  "p_symbol (fst (update_position m p)) = p_symbol p
   \<and> p_side (fst (update_position m p)) = p_side p
   \<and> p_entry_price (fst (update_position m p)) = p_entry_price p
   \<and> p_size (fst (update_position m p)) = p_size p
   \<and> p_stop_loss (fst (update_position m p)) = p_stop_loss p
   \<and> p_take_profit (fst (update_position m p)) = p_take_profit p
   \<and> p_entry_time (fst (update_position m p)) = p_entry_time p"
  by (simp add: update_position_def Let_def split: option.split)

lemma update_position_absent: "m (p_symbol p) = None \<Longrightarrow> fst (update_position m p) = p"
  by (simp add: update_position_def)

lemma update_loop_length: "length (fst (update_loop m ps)) = length ps"
  by (induction ps) (auto split: prod.splits option.splits)

lemma update_loop_nth:
  "i < length ps \<Longrightarrow>
     fst (update_loop m ps) ! i = ps ! i \<or> fst (update_loop m ps) ! i = fst (update_position m (ps ! i))"
proof (induction ps arbitrary: i)
  case Nil
  then show ?case by simp
next
  case (Cons p ps)
  show ?case
  proof (cases i)
    case 0
    then show ?thesis by (auto split: prod.splits option.splits)
  next
    case (Suc j)
    then have "j < length ps" using Cons.prems by simp
    from Cons.IH [OF this] show ?thesis using Suc
      by (auto split: prod.splits option.splits)
  qed
qed

lemma update_positions_positions:
  "positions (fst (update_positions s m)) = fst (update_loop m (positions s))"
  by (simp add: update_positions_def split: prod.splits)

lemma update_positions_rest:
  "fst (update_positions s m) = s\<lparr>positions := positions (fst (update_positions s m))\<rparr>"
  by (simp add: update_positions_def split: prod.splits)

text \<open>
  C10.  For every price map, \<^verbatim>\<open>update_positions\<close> (whether it returns or raises) leaves
  the manager's other attributes and the number of positions as they were, keeps the symbol,
  side, entry price, size, stop-loss, take-profit and entry time of every position, and
  leaves a position whose symbol is not a key of the map wholly unchanged; so only the
  current price, the PnL and the PnL percentage of positions named in the map can change.
\<close>

theorem update_positions_frame:
  "length (positions (fst (update_positions s price_updates))) = length (positions s)
   \<and> fst (update_positions s price_updates)
       = s\<lparr>positions := positions (fst (update_positions s price_updates))\<rparr>
   \<and> (\<forall>i<length (positions s).
        p_symbol (positions (fst (update_positions s price_updates)) ! i) = p_symbol (positions s ! i)
        \<and> p_side (positions (fst (update_positions s price_updates)) ! i) = p_side (positions s ! i)
        \<and> p_entry_price (positions (fst (update_positions s price_updates)) ! i)
            = p_entry_price (positions s ! i)
        \<and> p_size (positions (fst (update_positions s price_updates)) ! i) = p_size (positions s ! i)
        \<and> p_stop_loss (positions (fst (update_positions s price_updates)) ! i)
            = p_stop_loss (positions s ! i)
        \<and> p_take_profit (positions (fst (update_positions s price_updates)) ! i)
            = p_take_profit (positions s ! i)
        \<and> p_entry_time (positions (fst (update_positions s price_updates)) ! i)
            = p_entry_time (positions s ! i)
        \<and> (p_symbol (positions s ! i) \<notin> dom price_updates
             \<longrightarrow> positions (fst (update_positions s price_updates)) ! i = positions s ! i))"
proof (intro conjI allI impI)
  show "length (positions (fst (update_positions s price_updates))) = length (positions s)"
    by (simp add: update_positions_positions update_loop_length)
  show "fst (update_positions s price_updates)
       = s\<lparr>positions := positions (fst (update_positions s price_updates))\<rparr>"
    by (rule update_positions_rest)
next
  fix i assume i: "i < length (positions s)"
  let ?p = "positions s ! i"
  let ?q = "positions (fst (update_positions s price_updates)) ! i"
  have q: "?q = ?p \<or> ?q = fst (update_position price_updates ?p)"
    unfolding update_positions_positions using i by (rule update_loop_nth)
  show "p_symbol ?q = p_symbol ?p" using q update_position_frame [of price_updates ?p] by auto
  show "p_side ?q = p_side ?p" using q update_position_frame [of price_updates ?p] by auto
  show "p_entry_price ?q = p_entry_price ?p" using q update_position_frame [of price_updates ?p] by auto
  show "p_size ?q = p_size ?p" using q update_position_frame [of price_updates ?p] by auto
  show "p_stop_loss ?q = p_stop_loss ?p" using q update_position_frame [of price_updates ?p] by auto
  show "p_take_profit ?q = p_take_profit ?p" using q update_position_frame [of price_updates ?p] by auto
  show "p_entry_time ?q = p_entry_time ?p" using q update_position_frame [of price_updates ?p] by auto
  assume "p_symbol ?p \<notin> dom price_updates"
  then have "price_updates (p_symbol ?p) = None" by (simp add: domIff)
  then show "?q = ?p" using q update_position_absent by auto
qed

theorem update_positions_frame_witness:
  "(1::nat) < length (positions ex_full_manager)
   \<and> p_symbol (positions ex_full_manager ! 1) \<notin> dom [''ETHUSDT'' \<mapsto> 110]
   \<and> positions (fst (update_positions ex_full_manager [''ETHUSDT'' \<mapsto> 110])) ! 1
       = positions ex_full_manager ! 1
   \<and> p_stop_loss (positions (fst (update_positions ex_full_manager [''ETHUSDT'' \<mapsto> 110])) ! 0) = 97
   \<and> p_current_price (positions (fst (update_positions ex_full_manager [''ETHUSDT'' \<mapsto> 110])) ! 0)
       = 110"
proof -
  have l1: "(1::nat) < length (positions ex_full_manager)"
    and l0: "(0::nat) < length (positions ex_full_manager)"
    by (simp_all add: ex_full_manager_def)
  have d: "p_symbol (positions ex_full_manager ! 1) \<notin> dom [''ETHUSDT'' \<mapsto> 110]"
    by (simp add: ex_full_manager_def ex_position_def)
  have s0: "p_stop_loss (positions ex_full_manager ! 0) = 97"
    by (simp add: ex_full_manager_def ex_position_def)
  have c0: "p_current_price (positions (fst (update_positions ex_full_manager [''ETHUSDT'' \<mapsto> 110])) ! 0)
       = 110"
    by (simp add: update_positions_def update_position_def ex_full_manager_def ex_position_def)
  from update_positions_frame [of ex_full_manager "[''ETHUSDT'' \<mapsto> 110]"] l1 l0 d s0
  have "positions (fst (update_positions ex_full_manager [''ETHUSDT'' \<mapsto> 110])) ! 1
       = positions ex_full_manager ! 1"
    and "p_stop_loss (positions (fst (update_positions ex_full_manager [''ETHUSDT'' \<mapsto> 110])) ! 0) = 97"
    by metis+
  with l1 d c0 show ?thesis by blast
qed

subsection \<open>Trailing stop\<close>

lemma run_append: "run tsp s (xs @ ys) = run tsp (run tsp s xs) ys"
  by (induction xs arbitrary: s) auto

lemma trail_position_side: "p_side (trail_position tsp p) = p_side p"
  by (simp add: trail_position_def Let_def)

lemma trail_position_long:
  "p_side p = ''LONG'' \<Longrightarrow> p_stop_loss p \<le> p_stop_loss (trail_position tsp p)"
  by (simp add: trail_position_def Let_def)

lemma trail_position_short:
  "p_side p \<noteq> ''LONG'' \<Longrightarrow> p_stop_loss (trail_position tsp p) \<le> p_stop_loss p"
  by (simp add: trail_position_def Let_def)

lemma step_stop_loss:
  assumes "update_or_trail x" and "i < length (positions s)"
  shows "length (positions (step tsp s x)) = length (positions s)
       \<and> p_side (positions (step tsp s x) ! i) = p_side (positions s ! i)
       \<and> (p_side (positions s ! i) = ''LONG''
            \<longrightarrow> p_stop_loss (positions s ! i) \<le> p_stop_loss (positions (step tsp s x) ! i))
       \<and> (p_side (positions s ! i) \<noteq> ''LONG''
            \<longrightarrow> p_stop_loss (positions (step tsp s x) ! i) \<le> p_stop_loss (positions s ! i))"
proof (cases x)
  case (Update_positions m)
  let ?p = "positions s ! i"
  let ?q = "positions (fst (update_positions s m)) ! i"
  have "?q = ?p \<or> ?q = fst (update_position m ?p)"
    unfolding update_positions_positions using assms(2) by (rule update_loop_nth)
  then have "p_side ?q = p_side ?p \<and> p_stop_loss ?q = p_stop_loss ?p"
    using update_position_frame [of m ?p] by auto
  then have "length (positions (fst (update_positions s m))) = length (positions s)"
    and "p_side (positions (fst (update_positions s m)) ! i) = p_side (positions s ! i)"
    and "p_stop_loss (positions (fst (update_positions s m)) ! i) = p_stop_loss (positions s ! i)"
    by (simp_all add: update_positions_positions update_loop_length)
  then show ?thesis using Update_positions by simp
next
  case Apply_trailing_stop
  then show ?thesis
    using assms(2)
    by (simp add: apply_trailing_stop_def trail_position_side trail_position_long trail_position_short)
qed (use assms(1) in simp_all)

lemma run_stop_loss:
  assumes "\<forall>x\<in>set ops. update_or_trail x" and "i < length (positions s)"
  shows "length (positions (run tsp s ops)) = length (positions s)
       \<and> p_side (positions (run tsp s ops) ! i) = p_side (positions s ! i)
       \<and> (p_side (positions s ! i) = ''LONG''
            \<longrightarrow> p_stop_loss (positions s ! i) \<le> p_stop_loss (positions (run tsp s ops) ! i))
       \<and> (p_side (positions s ! i) \<noteq> ''LONG''
            \<longrightarrow> p_stop_loss (positions (run tsp s ops) ! i) \<le> p_stop_loss (positions s ! i))"
  using assms
proof (induction ops arbitrary: s)
  case Nil
  then show ?case by simp
next
  case (Cons x xs)
  have x: "update_or_trail x" and xs: "\<forall>y\<in>set xs. update_or_trail y"
    using Cons.prems(1) by simp_all
  note st = step_stop_loss [OF x Cons.prems(2), of tsp]
  then have i': "i < length (positions (step tsp s x))" using Cons.prems(2) by simp
  note ih = Cons.IH [OF xs i']
  show ?case using st ih by (simp del: step.simps) linarith
qed

text \<open>
  C4.  Over any sequence of \<^verbatim>\<open>update_positions\<close> and \<^verbatim>\<open>apply_trailing_stop\<close> calls,
  split at any point into an earlier and a later part, the position at index \<open>i\<close> keeps
  its place and its side, and its stop-loss after the whole sequence is at least its
  stop-loss after the earlier part when the side is LONG, and at most that when the side is
  anything else (SHORT).  The earlier part is arbitrary, so this holds in particular from
  the moment the profit has exceeded 5%.
\<close>

theorem trailing_stop_never_loosens:
  assumes "\<forall>x\<in>set (earlier @ later). update_or_trail x"
    and "i < length (positions s)"
  shows "i < length (positions (run tsp s earlier))
       \<and> i < length (positions (run tsp s (earlier @ later)))
       \<and> p_side (positions (run tsp s (earlier @ later)) ! i)
           = p_side (positions (run tsp s earlier) ! i)
       \<and> (p_side (positions (run tsp s earlier) ! i) = ''LONG''
            \<longrightarrow> p_stop_loss (positions (run tsp s earlier) ! i)
                  \<le> p_stop_loss (positions (run tsp s (earlier @ later)) ! i))
       \<and> (p_side (positions (run tsp s earlier) ! i) \<noteq> ''LONG''
            \<longrightarrow> p_stop_loss (positions (run tsp s (earlier @ later)) ! i)
                  \<le> p_stop_loss (positions (run tsp s earlier) ! i))"
proof -
  have e: "\<forall>x\<in>set earlier. update_or_trail x" and l: "\<forall>x\<in>set later. update_or_trail x"
    using assms(1) by simp_all
  have i1: "i < length (positions (run tsp s earlier))"
    using run_stop_loss [OF e assms(2), of tsp] assms(2) by simp
  from run_stop_loss [OF l i1, of tsp] i1 show ?thesis
    by (simp add: run_append)
qed

theorem trailing_stop_never_loosens_witness:
  "p_side (positions (run 0.03 ex_trailing_manager ex_earlier) ! 0) = ''LONG''
   \<and> p_pnl_percentage (positions (run 0.03 ex_trailing_manager ex_earlier) ! 0) > 0.05
   \<and> p_stop_loss (positions (run 0.03 ex_trailing_manager ex_earlier) ! 0) = 106.7
   \<and> 106.7 \<le> p_stop_loss (positions (run 0.03 ex_trailing_manager (ex_earlier @ ex_later)) ! 0)
   \<and> p_side (positions (run 0.03 ex_trailing_manager ex_earlier) ! 1) \<noteq> ''LONG''
   \<and> p_pnl_percentage (positions (run 0.03 ex_trailing_manager ex_earlier) ! 1) > 0.05
   \<and> p_stop_loss (positions (run 0.03 ex_trailing_manager ex_earlier) ! 1) = 92.7
   \<and> p_stop_loss (positions (run 0.03 ex_trailing_manager (ex_earlier @ ex_later)) ! 1) \<le> 92.7"
proof -
  have h: "\<forall>x\<in>set (ex_earlier @ ex_later). update_or_trail x"
    by (simp add: ex_earlier_def ex_later_def)
  have i0: "0 < length (positions ex_trailing_manager)"
    and i1: "1 < length (positions ex_trailing_manager)"
    by (simp_all add: ex_trailing_manager_def)
  have e: "positions (run 0.03 ex_trailing_manager ex_earlier)
             = [(ex_position ''ETHUSDT'' ''LONG'' 110 106.7)\<lparr>p_pnl := 50, p_pnl_percentage := 0.1\<rparr>,
                (ex_position ''SOLUSDT'' ''SHORT'' 90 92.7)\<lparr>p_pnl := 50, p_pnl_percentage := 0.1\<rparr>]"
    by (simp add: ex_earlier_def ex_trailing_manager_def ex_position_def update_positions_def
        update_position_def apply_trailing_stop_def trail_position_def)
  have b0: "p_side (positions (run 0.03 ex_trailing_manager ex_earlier) ! 0) = ''LONG''"
    "p_pnl_percentage (positions (run 0.03 ex_trailing_manager ex_earlier) ! 0) > 0.05"
    "p_stop_loss (positions (run 0.03 ex_trailing_manager ex_earlier) ! 0) = 106.7"
    unfolding e by (simp_all add: ex_position_def)
  have b1: "p_side (positions (run 0.03 ex_trailing_manager ex_earlier) ! 1) \<noteq> ''LONG''"
    "p_pnl_percentage (positions (run 0.03 ex_trailing_manager ex_earlier) ! 1) > 0.05"
    "p_stop_loss (positions (run 0.03 ex_trailing_manager ex_earlier) ! 1) = 92.7"
    unfolding e by (simp_all add: ex_position_def)
  from trailing_stop_never_loosens [OF h i0, of "0.03"] b0
  have c0: "106.7 \<le> p_stop_loss (positions (run 0.03 ex_trailing_manager (ex_earlier @ ex_later)) ! 0)"
    by simp
  from trailing_stop_never_loosens [OF h i1, of "0.03"] b1
  have c1: "p_stop_loss (positions (run 0.03 ex_trailing_manager (ex_earlier @ ex_later)) ! 1) \<le> 92.7"
    by simp
  from b0 b1 c0 c1 show ?thesis by blast
qed

subsection \<open>The concurrency limit\<close>

lemma accepted_below_cap:
  "accepted (validate_trade s r price balance) \<Longrightarrow> int (length (positions s)) < max_concurrent_positions s"
  by (auto simp: accepted_def validate_trade_def split: if_splits)

lemma add_position_count:
  "length (positions (add_position s r amount now)) = Suc (length (positions s))
   \<and> max_concurrent_positions (add_position s r amount now) = max_concurrent_positions s"
  by (simp add: add_position_def)

lemma step_count:
  assumes "\<forall>r amount now. x \<noteq> Add_position r amount now"
  shows "length (positions (step tsp s x)) \<le> length (positions s)
       \<and> max_concurrent_positions (step tsp s x) = max_concurrent_positions s"
proof (cases x)
  case (Update_positions m)
  then show ?thesis
    by (simp add: update_positions_positions update_loop_length)
       (simp add: update_positions_def split: prod.splits)
next
  case Apply_trailing_stop
  then show ?thesis by (simp add: apply_trailing_stop_def)
next
  case (Close_position p)
  then show ?thesis
    by (auto simp: close_position_def length_remove1 split: if_splits)
qed (use assms in simp_all)

lemma step_within_cap:
  assumes "\<forall>r amount now. x \<noteq> Add_position r amount now" and "within_cap s"
  shows "within_cap (step tsp s x)"
  using step_count [OF assms(1), of tsp s] assms(2) by (simp add: within_cap_def)

lemma guarded_add_within_cap:
  assumes "accepted (validate_trade s r price balance)"
  shows "within_cap (add_position s r' amount now)"
  using accepted_below_cap [OF assms] add_position_count [of s r' amount now]
  by (simp add: within_cap_def)

lemma guarded_trace_within_cap:
  "guarded tsp s ops \<Longrightarrow> within_cap s \<Longrightarrow> \<forall>s'\<in>set (trace tsp s ops). within_cap s'"
proof (induction tsp s ops rule: guarded.induct)
  case (1 tsp s)
  then show ?case by simp
next
  case (2 tsp s r price balance r' actual_size now xs)
  from "2.prems"(1)
  have all: "r' = r \<and> accepted (validate_trade s r price balance)
               \<and> guarded tsp (add_position s r' actual_size now) xs"
    by auto
  then have eq: "r' = r" and acc: "accepted (validate_trade s r price balance)"
    and g: "guarded tsp (add_position s r' actual_size now) xs"
    by blast+
  have w: "within_cap (add_position s r' actual_size now)"
    using acc by (rule guarded_add_within_cap)
  have "\<forall>s'\<in>set (trace tsp (add_position s r' actual_size now) xs). within_cap s'"
    using "2.IH" eq acc g w by blast
  then show ?case using "2.prems"(2) by simp
next
  case (3 tsp s r actual_size now xs)
  then show ?case by simp
qed (simp_all add: step_within_cap del: step.simps)

lemma step_length:
  "length (positions (step tsp s (Validate_trade r price balance))) = length (positions s)"
  "length (positions (step tsp s (Add_position r amount now))) = Suc (length (positions s))"
  "length (positions (step tsp s (Update_positions m))) = length (positions s)"
  "length (positions (step tsp s Check_stop_loss_take_profit)) = length (positions s)"
  "length (positions (step tsp s Apply_trailing_stop)) = length (positions s)"
  by (simp_all add: add_position_def update_positions_positions update_loop_length
      apply_trailing_stop_def)

lemma step_cap: "max_concurrent_positions (step tsp s x) = max_concurrent_positions s"
proof (cases x)
  case (Update_positions m)
  then show ?thesis by (simp add: update_positions_def split: prod.splits)
next
  case (Close_position p)
  then show ?thesis by (simp add: close_position_def)
qed (simp_all add: add_position_def apply_trailing_stop_def)

lemma run_in_trace: "run tsp s ops \<in> set (trace tsp s ops)"
  by (induction ops arbitrary: s) auto

text \<open>
  C3, amended.  Starting from a book within the limit, across every sequence of
  \<^verbatim>\<open>validate_trade\<close>, \<^verbatim>\<open>add_position\<close>, \<^verbatim>\<open>update_positions\<close>,
  \<^verbatim>\<open>check_stop_loss_take_profit\<close>, \<^verbatim>\<open>apply_trailing_stop\<close> and
  \<^verbatim>\<open>close_position\<close> calls in which every \<^verbatim>\<open>add_position\<close> comes right after a
  \<^verbatim>\<open>validate_trade\<close> that accepted the same recommendation, the number of open
  positions never exceeds \<^verbatim>\<open>max_concurrent_positions\<close>: it holds before, between and
  after the calls.
\<close>

theorem guarded_sequences_stay_within_cap:
  assumes "int (length (positions s)) \<le> max_concurrent_positions s"
    and "guarded tsp s ops"
  shows "\<forall>s'\<in>set (trace tsp s ops). int (length (positions s')) \<le> max_concurrent_positions s'"
  using guarded_trace_within_cap [OF assms(2)] assms(1) by (simp add: within_cap_def)

theorem guarded_sequences_stay_within_cap_witness:
  "int (length (positions ex_trailing_manager)) \<le> max_concurrent_positions ex_trailing_manager
   \<and> guarded 0.03 ex_trailing_manager ex_guarded_ops
   \<and> length (positions (run 0.03 ex_trailing_manager ex_guarded_ops)) = 3
   \<and> int (length (positions (run 0.03 ex_trailing_manager ex_guarded_ops)))
        \<le> max_concurrent_positions (run 0.03 ex_trailing_manager ex_guarded_ops)"
proof -
  have h1: "int (length (positions ex_trailing_manager)) \<le> max_concurrent_positions ex_trailing_manager"
    by (simp add: ex_trailing_manager_def ex_manager_def init_def)
  have v: "validate_trade ex_trailing_manager (ex_recommendation 0.8 2 95) 100 10000
             = Inr (True, Trade_validated, 800)"
    by (simp add: validate_trade_def calculate_position_size_def calculate_portfolio_risk_def
        check_correlation_risk_def get_total_portfolio_value_def ex_trailing_manager_def
        ex_manager_def init_def ex_recommendation_def ex_position_def)
  have a: "accepted (validate_trade ex_trailing_manager (ex_recommendation 0.8 2 95) 100 10000)"
    unfolding v by (simp add: accepted_def)
  have h2: "guarded 0.03 ex_trailing_manager ex_guarded_ops"
    using a by (simp add: ex_guarded_ops_def)
  have n: "length (positions (run 0.03 ex_trailing_manager ex_guarded_ops)) = 3"
    by (simp add: ex_guarded_ops_def step_length del: step.simps)
       (simp add: ex_trailing_manager_def)
  from guarded_sequences_stay_within_cap [OF h1 h2] run_in_trace [of "0.03" ex_trailing_manager ex_guarded_ops]
  have "int (length (positions (run 0.03 ex_trailing_manager ex_guarded_ops)))
        \<le> max_concurrent_positions (run 0.03 ex_trailing_manager ex_guarded_ops)"
    by blast
  with h1 h2 n show ?thesis by blast
qed

text \<open>
  C3 as stated fails: \<^verbatim>\<open>add_position\<close> appends without looking at the limit, so four
  calls on an empty book with limit 3 leave four open positions.
\<close>

theorem unguarded_add_position_counterexample:
  "max_concurrent_positions (run 0.03 ex_manager ex_unguarded_ops)
     < int (length (positions (run 0.03 ex_manager ex_unguarded_ops)))"
  by (simp add: ex_unguarded_ops_def step_length step_cap del: step.simps)
     (simp add: ex_manager_def init_def)

section \<open>Risk metrics\<close>

lemma portfolio_correlation_small:
  "length (positions s) < 2 \<Longrightarrow> calculate_portfolio_correlation s = Inr 0"
  by (simp add: calculate_portfolio_correlation_def)

lemma portfolio_correlation_name_error:
  "\<not> length (positions s) < 2 \<Longrightarrow> calculate_portfolio_correlation s = Inl NameError"
  by (simp add: calculate_portfolio_correlation_def lookup_name_def module_globals_def)

lemma risk_metrics_small:
  assumes "length (positions s) < 2"
  shows "\<exists>m. get_risk_metrics s now = Inr m"
  unfolding get_risk_metrics_def Let_def portfolio_correlation_small [OF assms] by simp

lemma risk_metrics_var:
  assumes "get_risk_metrics s now = Inr m"
  shows "m_portfolio_var m =
           (if length (historical_returns s) > 20 then percentile (historical_returns s) 5
            else - risk_per_trade s)"
  using assms unfolding get_risk_metrics_def Let_def
  by (cases "calculate_portfolio_correlation s") auto

lemma risk_metrics_correlation:
  assumes "get_risk_metrics s now = Inr m"
  shows "length (positions s) < 2 \<and> m_correlation_risk m = 0"
proof (cases "length (positions s) < 2")
  case True
  then show ?thesis
    using assms unfolding get_risk_metrics_def Let_def portfolio_correlation_small [OF True] by auto
next
  case False
  then show ?thesis
    using assms unfolding get_risk_metrics_def Let_def portfolio_correlation_name_error [OF False]
    by simp
qed

text \<open>
  C5 asks that \<^verbatim>\<open>get_risk_metrics\<close> return in every state, with the correlation risk
  (max_same_base_count - 1) / open_position_count.  With two open positions the code
  reaches \<^verbatim>\<open>defaultdict(int)\<close>, a name the module never imports, and the call raises
  \<^verbatim>\<open>NameError\<close> instead of returning the metrics.
\<close>

theorem risk_metrics_name_error:
  "length (positions ex_trailing_manager) = 2
   \<and> get_risk_metrics ex_trailing_manager 0 = Inl NameError"
proof -
  have l: "length (positions ex_trailing_manager) = 2"
    by (simp add: ex_trailing_manager_def)
  then have "\<not> length (positions ex_trailing_manager) < 2" by simp
  then have "calculate_portfolio_correlation ex_trailing_manager = Inl NameError"
    by (rule portfolio_correlation_name_error)
  then have "get_risk_metrics ex_trailing_manager 0 = Inl NameError"
    unfolding get_risk_metrics_def Let_def by simp
  with l show ?thesis by blast
qed

text \<open>
  C6, amended.  Whenever \<^verbatim>\<open>get_risk_metrics\<close> returns (and it does return when fewer
  than two positions are open), the 95% Value-at-Risk it reports is the 5th percentile of
  the historical returns when the series holds more than 20 samples, and minus
  \<^verbatim>\<open>risk_per_trade\<close> when it holds 20 samples or fewer.
\<close>

theorem value_at_risk_threshold:
  "(length (positions s) < 2 \<longrightarrow> (\<exists>m. get_risk_metrics s now = Inr m))
   \<and> (\<forall>m. get_risk_metrics s now = Inr m \<longrightarrow>
         m_portfolio_var m =
           (if length (historical_returns s) > 20 then percentile (historical_returns s) 5
            else - risk_per_trade s))"
  using risk_metrics_small [of s now] risk_metrics_var [of s now] by blast

lemma sort20: "sort ex_returns20 =
  [- 0.04, - 0.03, - 0.02, - 0.01, 0.00, 0.01, 0.01, 0.01, 0.02, 0.02,
   0.02, 0.03, 0.03, 0.04, 0.04, 0.05, 0.05, 0.06, 0.07, 0.08]"
  by (simp add: ex_returns20_def)

lemma percentile20: "percentile ex_returns20 5 = - 0.0305"
  unfolding percentile_def Let_def sort20 by simp

lemma percentile21: "percentile (0.09 # ex_returns20) 5 = - 0.03"
proof -
  have "sort (0.09 # ex_returns20) = sort ex_returns20 @ [0.09]"
    unfolding sort_key_simps sort20 by simp
  then show ?thesis unfolding percentile_def Let_def sort20 by simp
qed

theorem value_at_risk_threshold_witness:
  "length (positions ex_manager21) < 2
   \<and> length (historical_returns ex_manager21) = 21
   \<and> map_sum id m_portfolio_var (get_risk_metrics ex_manager21 0) = Inr (- 0.03)"
proof -
  have p: "length (positions ex_manager21) < 2"
    by (simp add: ex_manager21_def ex_manager_def init_def)
  have h: "historical_returns ex_manager21 = 0.09 # ex_returns20"
    by (simp add: ex_manager21_def)
  have n: "length (historical_returns ex_manager21) = 21"
    unfolding h by (simp add: ex_returns20_def)
  from value_at_risk_threshold [of ex_manager21 0] p
  obtain m where m: "get_risk_metrics ex_manager21 0 = Inr m"
    and v: "m_portfolio_var m =
              (if length (historical_returns ex_manager21) > 20
               then percentile (historical_returns ex_manager21) 5
               else - risk_per_trade ex_manager21)"
    by blast
  have "m_portfolio_var m = - 0.03"
    unfolding v n unfolding h percentile21 by simp
  then have "map_sum id m_portfolio_var (get_risk_metrics ex_manager21 0) = Inr (- 0.03)"
    unfolding m by simp
  with p n show ?thesis by blast
qed

text \<open>
  C6 as stated fails at exactly 20 samples: the code tests \<^verbatim>\<open>len > 20\<close>, so it reports
  the fallback -0.02 while the 5th percentile of the series is -0.0305.
\<close>

theorem value_at_risk_twenty_samples_counterexample:
  "length (historical_returns ex_manager20) = 20
   \<and> map_sum id m_portfolio_var (get_risk_metrics ex_manager20 0) = Inr (- 0.02)
   \<and> percentile (historical_returns ex_manager20) 5 = - 0.0305"
proof -
  have p: "length (positions ex_manager20) < 2"
    by (simp add: ex_manager20_def ex_manager_def init_def)
  have h: "historical_returns ex_manager20 = ex_returns20"
    by (simp add: ex_manager20_def)
  have n: "length (historical_returns ex_manager20) = 20"
    unfolding h by (simp add: ex_returns20_def)
  have r: "risk_per_trade ex_manager20 = 0.02"
    by (simp add: ex_manager20_def ex_manager_def init_def)
  obtain m where m: "get_risk_metrics ex_manager20 0 = Inr m"
    using risk_metrics_small [OF p] by blast
  have "m_portfolio_var m = - 0.02"
    unfolding risk_metrics_var [OF m] n r by simp
  then have "map_sum id m_portfolio_var (get_risk_metrics ex_manager20 0) = Inr (- 0.02)"
    unfolding m by simp
  moreover have "percentile (historical_returns ex_manager20) 5 = - 0.0305"
    unfolding h by (rule percentile20)
  ultimately show ?thesis using n by blast
qed

end
